theory Spec2Isabelle
  imports Complex_Main "HOL-Library.Multiset"
begin

section \<open>Python values, dictionaries and exceptions\<close>

text \<open>
  The services of \<^verbatim>\<open>app/services\<close> work on plain dictionaries whose values come from JSON
  documents or from the data aggregator. A value is modelled by \<open>pyval\<close>: \<^verbatim>\<open>None\<close>, a
  \<^verbatim>\<open>bool\<close>, an \<^verbatim>\<open>int\<close>, a \<^verbatim>\<open>float\<close> or a \<^verbatim>\<open>str\<close>. Floats are modelled by exact
  rationals: rounding errors, infinities, NaN and the overflow of an \<^verbatim>\<open>int\<close> too large for a
  \<^verbatim>\<open>float\<close> are outside the model. Lists and nested dictionaries as field values are outside
  the model too.
\<close>

datatype pyval = PNone | PBool bool | PInt int | PFloat rat | PStr string

datatype error = TypeError | ValueError | IndexError

type_synonym pydict = "string \<rightharpoonup> pyval"

text \<open>\<^verbatim>\<open>d.get(k, default)\<close>: a key that is present with the value \<^verbatim>\<open>None\<close> yields \<^verbatim>\<open>None\<close>.\<close>

definition dict_get :: "pydict \<Rightarrow> string \<Rightarrow> pyval \<Rightarrow> pyval" where
  "dict_get d k dflt = (case d k of None \<Rightarrow> dflt | Some v \<Rightarrow> v)"

text \<open>\<^verbatim>\<open>x or {}\<close> for an optional dictionary argument.\<close>

definition or_empty :: "pydict option \<Rightarrow> pydict" where
  "or_empty d = (case d of None \<Rightarrow> Map.empty | Some m \<Rightarrow> m)"

text \<open>Truth value of an object in a condition.\<close>

fun truthy :: "pyval \<Rightarrow> bool" where
  "truthy PNone = False"
| "truthy (PBool b) = b"
| "truthy (PInt i) = (i \<noteq> 0)"
| "truthy (PFloat r) = (r \<noteq> 0)"
| "truthy (PStr s) = (s \<noteq> [])"

text \<open>The number an object stands for in arithmetic and ordering; \<^verbatim>\<open>bool\<close> is a subclass of
  \<^verbatim>\<open>int\<close>. \<open>None\<close> marks the objects for which arithmetic with a number raises TypeError.\<close>

fun num :: "pyval \<Rightarrow> rat option" where
  "num (PBool b) = Some (if b then 1 else 0)"
| "num (PInt i) = Some (of_int i)"
| "num (PFloat r) = Some r"
| "num PNone = None"
| "num (PStr s) = None"

text \<open>Comparisons and arithmetic of an object with a numeric literal.\<close>

definition py_gt :: "pyval \<Rightarrow> rat \<Rightarrow> error + bool" where
  "py_gt v c = (case num v of None \<Rightarrow> Inl TypeError | Some x \<Rightarrow> Inr (x > c))"

definition py_ge :: "pyval \<Rightarrow> rat \<Rightarrow> error + bool" where
  "py_ge v c = (case num v of None \<Rightarrow> Inl TypeError | Some x \<Rightarrow> Inr (x \<ge> c))"

definition py_lt :: "pyval \<Rightarrow> rat \<Rightarrow> error + bool" where
  "py_lt v c = (case num v of None \<Rightarrow> Inl TypeError | Some x \<Rightarrow> Inr (x < c))"

text \<open>\<^verbatim>\<open>v == c\<close> never raises; \<^verbatim>\<open>True == 1\<close> and \<^verbatim>\<open>1.0 == 1\<close> hold.\<close>

definition py_eq_num :: "pyval \<Rightarrow> rat \<Rightarrow> bool" where
  "py_eq_num v c = (num v = Some c)"

definition py_eq_str :: "pyval \<Rightarrow> string \<Rightarrow> bool" where
  "py_eq_str v s = (v = PStr s)"

definition py_mul :: "rat \<Rightarrow> pyval \<Rightarrow> error + rat" where
  "py_mul c v = (case num v of None \<Rightarrow> Inl TypeError | Some x \<Rightarrow> Inr (c * x))"

definition py_neg :: "pyval \<Rightarrow> error + rat" where
  "py_neg v = (case num v of None \<Rightarrow> Inl TypeError | Some x \<Rightarrow> Inr (- x))"

definition py_sub :: "rat \<Rightarrow> pyval \<Rightarrow> error + rat" where
  "py_sub c v = (case num v of None \<Rightarrow> Inl TypeError | Some x \<Rightarrow> Inr (c - x))"

text \<open>Sequencing of steps that may raise: the first exception ends the evaluation.\<close>

definition andthen :: "error + 'a \<Rightarrow> ('a \<Rightarrow> error + 'b) \<Rightarrow> error + 'b" where
  "andthen r f = (case r of Inl e \<Rightarrow> Inl e | Inr x \<Rightarrow> f x)"

section \<open>Emergency detector (\<^verbatim>\<open>emergency_detector.py\<close>)\<close>

text \<open>
  Times are naive local instants in microseconds, as \<^verbatim>\<open>datetime.now()\<close> yields them.
  \<^verbatim>\<open>datetime.fromisoformat\<close> belongs to the standard library and is a parameter of the
  model: applied to a string it returns \<open>None\<close> for ValueError, or a datetime that is
  naive or carries a UTC offset. Subtracting an aware datetime from the naive
  \<^verbatim>\<open>datetime.now()\<close> raises TypeError.
\<close>

type_synonym time = int

datatype datetime = Naive time | Aware time int

type_synonym iso_parser = "string \<Rightarrow> datetime option"

text \<open>The message of a candidate is an f-string; the model keeps the template and the
  interpolated values, not the rendered text.\<close>

datatype message =
    MsgFallNoMovement int
  | MsgFallDetected
  | MsgExtremeDistress
  | MsgHighDistress
  | MsgSeverePain pyval pyval
  | MsgPainIndicators pyval pyval
  | MsgNoEating pyval
  | MsgMissedMeals
  | MsgProlongedInactivity pyval
  | MsgExtendedInactivity pyval
  | MsgEmergencyButton pyval
  | MsgMultipleRiskFactors "string list" bool

record candidate =
  type :: string
  severity :: string
  message :: message
  action :: string
  risk_factors :: "string list option"

definition THRESHOLD_fall_no_movement_minutes :: rat where
  "THRESHOLD_fall_no_movement_minutes = 5"

definition THRESHOLD_days_without_eating :: rat where
  "THRESHOLD_days_without_eating = 2"

definition THRESHOLD_inactivity_hours :: rat where
  "THRESHOLD_inactivity_hours = 18"

definition THRESHOLD_pain_score_threshold :: rat where
  "THRESHOLD_pain_score_threshold = 7 / 10"

definition THRESHOLD_combined_risk_factors :: nat where
  "THRESHOLD_combined_risk_factors = 3"

text \<open>The body of the \<^verbatim>\<open>try\<close> block of \<^verbatim>\<open>_check_fall_emergency\<close> up to the comparison:
  \<^verbatim>\<open>(datetime.now() - datetime.fromisoformat(fall_timestamp)).total_seconds() / 60\<close>.\<close>

definition time_since_fall :: "iso_parser \<Rightarrow> time \<Rightarrow> pyval \<Rightarrow> error + rat" where
  "time_since_fall fromisoformat now fall_timestamp =
     (case fall_timestamp of
        PStr s \<Rightarrow>
          (case fromisoformat s of
             None \<Rightarrow> Inl ValueError
           | Some (Naive fall_time) \<Rightarrow> Inr (of_int (now - fall_time) / 1000000 / 60)
           | Some (Aware fall_time off) \<Rightarrow> Inl TypeError)
      | _ \<Rightarrow> Inl TypeError)"

definition fall_no_movement :: "rat \<Rightarrow> candidate" where
  "fall_no_movement minutes =
     \<lparr> type = ''fall_no_movement'', severity = ''critical'',
       message = MsgFallNoMovement (if minutes < 0 then \<lceil>minutes\<rceil> else \<lfloor>minutes\<rfloor>),
       action = ''Call immediately or contact emergency services (911). Elder may be unable to get up or be unconscious.'',
       risk_factors = None \<rparr>"

definition fall_detected :: candidate where
  "fall_detected =
     \<lparr> type = ''fall_detected'', severity = ''critical'', message = MsgFallDetected,
       action = ''Contact immediately to verify safety. Be prepared to call emergency services if no response.'',
       risk_factors = None \<rparr>"

text \<open>\<^verbatim>\<open>_check_fall_emergency\<close>. ValueError and TypeError raised inside the \<^verbatim>\<open>try\<close> block are
  caught and logged, and control falls through to the immediate alert. The argument
  \<^verbatim>\<open>recent_events\<close> is not read by the source.\<close>

definition check_fall_emergency ::
  "iso_parser \<Rightarrow> time \<Rightarrow> pydict \<Rightarrow> pydict list \<Rightarrow> candidate option" where
  "check_fall_emergency fromisoformat now vision_data recent_events =
     (if \<not> truthy (dict_get vision_data ''fall_detected'' PNone) then None
      else
        let fall_timestamp = dict_get vision_data ''fall_timestamp'' PNone in
        if truthy fall_timestamp then
          (case time_since_fall fromisoformat now fall_timestamp of
             Inr minutes \<Rightarrow>
               if minutes \<ge> THRESHOLD_fall_no_movement_minutes
               then Some (fall_no_movement minutes)
               else Some fall_detected
           | Inl e \<Rightarrow> Some fall_detected)
        else Some fall_detected)"

text \<open>\<^verbatim>\<open>_check_distress_emergency\<close>.\<close>

definition check_distress_emergency :: "pydict \<Rightarrow> candidate option" where
  "check_distress_emergency vision_data =
     (let distress_level = dict_get vision_data ''distress_level'' (PStr ''low'') in
      if py_eq_str distress_level ''critical'' then
        Some \<lparr> type = ''extreme_distress'', severity = ''critical'', message = MsgExtremeDistress,
               action = ''Contact immediately to check on wellbeing and provide support.'',
               risk_factors = None \<rparr>
      else if py_eq_str distress_level ''high'' then
        Some \<lparr> type = ''high_distress'', severity = ''high'', message = MsgHighDistress,
               action = ''Schedule immediate check-in call or visit.'',
               risk_factors = None \<rparr>
      else None)"

text \<open>\<^verbatim>\<open>_check_pain_emergency\<close>. \<^verbatim>\<open>pain_score\<close> and \<^verbatim>\<open>health_complaints\<close> are read from
  \<^verbatim>\<open>health_data\<close>, \<^verbatim>\<open>pain_detected\<close> and \<^verbatim>\<open>pain_expression_count\<close> from \<^verbatim>\<open>vision_data\<close>.
  Both \<^verbatim>\<open>and\<close> conditions are short-circuit: the right operand is compared only when the
  left one holds.\<close>

definition severe_pain :: "pyval \<Rightarrow> pyval \<Rightarrow> candidate" where
  "severe_pain pain_score pain_expressions =
     \<lparr> type = ''severe_pain'', severity = ''high'',
       message = MsgSeverePain pain_score pain_expressions,
       action = ''Contact to assess pain level. Consider arranging medical consultation if persistent.'',
       risk_factors = None \<rparr>"

definition pain_indicators :: "pyval \<Rightarrow> pyval \<Rightarrow> candidate" where
  "pain_indicators pain_expressions health_complaints =
     \<lparr> type = ''pain_indicators'', severity = ''medium'',
       message = MsgPainIndicators pain_expressions health_complaints,
       action = ''Monitor closely and check in about health status.'',
       risk_factors = None \<rparr>"

definition check_pain_emergency :: "pydict \<Rightarrow> pydict \<Rightarrow> error + candidate option" where
  "check_pain_emergency vision_data health_data =
     (let pain_detected = dict_get vision_data ''pain_detected'' (PBool False);
          pain_score = dict_get health_data ''pain_score'' (PInt 0);
          pain_expressions = dict_get vision_data ''pain_expression_count'' (PInt 0);
          health_complaints = dict_get health_data ''health_complaints'' (PInt 0)
      in
      andthen (if truthy pain_detected then py_gt pain_score THRESHOLD_pain_score_threshold
               else Inr False) (\<lambda>severe.
      if severe then Inr (Some (severe_pain pain_score pain_expressions))
      else
        andthen (py_gt pain_expressions 3) (\<lambda>many_expressions.
        andthen (if many_expressions then py_gt health_complaints 2 else Inr False) (\<lambda>both.
        if both then Inr (Some (pain_indicators pain_expressions health_complaints))
        else Inr None))))"

text \<open>\<^verbatim>\<open>_check_eating_emergency\<close>.\<close>

definition check_eating_emergency :: "pydict \<Rightarrow> error + candidate option" where
  "check_eating_emergency activity_data =
     (let days_without_eating = dict_get activity_data ''days_without_eating'' (PInt 0) in
      andthen (py_ge days_without_eating THRESHOLD_days_without_eating) (\<lambda>no_eating.
      if no_eating then
        Inr (Some \<lparr> type = ''no_eating'', severity = ''critical'',
                    message = MsgNoEating days_without_eating,
                    action = ''Contact IMMEDIATELY to ensure food access, appetite, and ability to eat. This may indicate serious health issues or inability to prepare food.'',
                    risk_factors = None \<rparr>)
      else if py_eq_num days_without_eating 1 then
        Inr (Some \<lparr> type = ''missed_meals'', severity = ''medium'', message = MsgMissedMeals,
                    action = ''Check in to verify eating status and food availability.'',
                    risk_factors = None \<rparr>)
      else Inr None))"

text \<open>\<^verbatim>\<open>_check_inactivity_emergency\<close>.\<close>

definition check_inactivity_emergency :: "pydict \<Rightarrow> error + candidate option" where
  "check_inactivity_emergency activity_data =
     (let max_inactivity = dict_get activity_data ''max_inactivity_hours'' (PInt 0) in
      andthen (py_ge max_inactivity THRESHOLD_inactivity_hours) (\<lambda>prolonged.
      if prolonged then
        Inr (Some \<lparr> type = ''prolonged_inactivity'', severity = ''high'',
                    message = MsgProlongedInactivity max_inactivity,
                    action = ''Contact immediately to verify safety. Prolonged inactivity may indicate medical emergency or inability to move.'',
                    risk_factors = None \<rparr>)
      else
        andthen (py_ge max_inactivity 12) (\<lambda>extended.
        if extended then
          Inr (Some \<lparr> type = ''extended_inactivity'', severity = ''medium'',
                      message = MsgExtendedInactivity max_inactivity,
                      action = ''Schedule check-in to verify wellbeing.'',
                      risk_factors = None \<rparr>)
        else Inr None)))"

text \<open>\<^verbatim>\<open>_check_emergency_button\<close>.\<close>

definition check_emergency_button :: "pydict \<Rightarrow> error + candidate option" where
  "check_emergency_button health_data =
     (let emergency_presses = dict_get health_data ''emergency_button_presses'' (PInt 0) in
      andthen (py_gt emergency_presses 0) (\<lambda>pressed.
      if pressed then
        Inr (Some \<lparr> type = ''emergency_button'', severity = ''critical'',
                    message = MsgEmergencyButton emergency_presses,
                    action = ''Contact IMMEDIATELY or call emergency services. Elder has actively requested help.'',
                    risk_factors = None \<rparr>)
      else Inr None))"

text \<open>\<^verbatim>\<open>_check_combined_risks\<close>. \<open>add_if\<close> is \<^verbatim>\<open>if cond: risk_factors.append(name)\<close>.\<close>

definition add_if :: "bool \<Rightarrow> 'a \<Rightarrow> 'a list \<Rightarrow> 'a list" where
  "add_if cond x xs = (if cond then xs @ [x] else xs)"

definition check_combined_risks :: "pydict \<Rightarrow> pydict \<Rightarrow> pydict \<Rightarrow> error + candidate option" where
  "check_combined_risks vision_data activity_data health_data =
     (let distress_level = dict_get vision_data ''distress_level'' PNone;
          rf1 = add_if (py_eq_str distress_level ''high'' \<or> py_eq_str distress_level ''critical'')
                  ''emotional distress'' [];
          rf2 = add_if (truthy (dict_get vision_data ''pain_detected'' PNone)) ''pain expressions'' rf1;
          rf3 = add_if (truthy (dict_get vision_data ''unusual_posture'' PNone)) ''unusual posture'' rf2;
          rf4 = add_if (truthy (dict_get activity_data ''prolonged_inactivity'' PNone))
                  ''prolonged inactivity'' rf3;
          rf5 = add_if (truthy (dict_get activity_data ''concerning'' PNone))
                  ''concerning activity patterns'' rf4
      in
      andthen (py_gt (dict_get activity_data ''days_without_eating'' (PInt 0)) 0) (\<lambda>missed_meals.
      let rf6 = add_if missed_meals ''missed meals'' rf5 in
      andthen (py_gt (dict_get health_data ''health_complaints'' (PInt 0)) 3) (\<lambda>complaints.
      let rf7 = add_if complaints ''multiple health complaints'' rf6 in
      andthen (py_gt (dict_get health_data ''medicine_missed'' (PInt 0)) 3) (\<lambda>missed_medicine.
      let factors = add_if missed_medicine ''missed medications'' rf7 in
      if length factors \<ge> THRESHOLD_combined_risk_factors then
        Inr (Some \<lparr> type = ''multiple_risk_factors'', severity = ''high'',
                    message = MsgMultipleRiskFactors (take 5 factors) (length factors > 5),
                    action = ''Schedule urgent check-in or visit. Multiple indicators suggest declining wellbeing.'',
                    risk_factors = Some factors \<rparr>)
      else Inr None))))"

text \<open>The result dictionary of \<^verbatim>\<open>detect_emergency\<close>. A field of option type is \<open>None\<close> when
  the value is \<^verbatim>\<open>None\<close>; \<open>total_emergencies\<close> is \<open>None\<close> when the dictionary has no such key.\<close>

record emergency_result =
  emergency :: bool
  emergency_type :: "string option"
  result_severity :: string
  alert_message :: "message option"
  recommended_action :: "string option"
  all_concerns :: "candidate list"
  total_emergencies :: "nat option"
  timestamp :: time

definition severity_order :: "string \<Rightarrow> int" where
  "severity_order s =
     (if s = ''critical'' then 4 else if s = ''high'' then 3 else if s = ''medium'' then 2
      else if s = ''low'' then 1 else 0)"

text \<open>\<^verbatim>\<open>emergencies.sort(key=..., reverse=True)\<close>: Python's sort is stable, also when reversed,
  so it is the stable ascending sort by the negated rank.\<close>

definition sort_by_severity :: "candidate list \<Rightarrow> candidate list" where
  "sort_by_severity emergencies = sort_key (\<lambda>x. - severity_order (severity x)) emergencies"

text \<open>\<^verbatim>\<open>if c: emergencies.append(c)\<close>; a candidate is a non-empty dictionary, hence true.\<close>

definition append_some :: "'a list \<Rightarrow> 'a option \<Rightarrow> 'a list" where
  "append_some xs c = (case c of None \<Rightarrow> xs | Some x \<Rightarrow> xs @ [x])"

text \<open>\<^verbatim>\<open>detect_emergency\<close>. \<open>now\<close> is the clock reading of the fall check, \<open>stamp\<close> the one of
  the result's timestamp; \<open>ranked\<close> is the list \<^verbatim>\<open>emergencies\<close> after it was sorted in place.\<close>

definition detect_emergency ::
  "iso_parser \<Rightarrow> time \<Rightarrow> time \<Rightarrow> pydict option \<Rightarrow> pydict option \<Rightarrow> pydict option \<Rightarrow>
   pydict list option \<Rightarrow> error + emergency_result" where
  "detect_emergency fromisoformat now stamp vision_arg activity_arg health_arg events_arg =
     (let vision_data = or_empty vision_arg;
          activity_data = or_empty activity_arg;
          health_data = or_empty health_arg;
          recent_events = (case events_arg of None \<Rightarrow> [] | Some es \<Rightarrow> es);
          e1 = append_some [] (check_fall_emergency fromisoformat now vision_data recent_events);
          e2 = append_some e1 (check_distress_emergency vision_data)
      in
      andthen (check_pain_emergency vision_data health_data) (\<lambda>pain_emergency.
      let e3 = append_some e2 pain_emergency in
      andthen (check_eating_emergency activity_data) (\<lambda>eating_emergency.
      let e4 = append_some e3 eating_emergency in
      andthen (check_inactivity_emergency activity_data) (\<lambda>inactivity_emergency.
      let e5 = append_some e4 inactivity_emergency in
      andthen (check_emergency_button health_data) (\<lambda>button_emergency.
      let e6 = append_some e5 button_emergency in
      andthen (check_combined_risks vision_data activity_data health_data) (\<lambda>combined_emergency.
      let emergencies = append_some e6 combined_emergency in
      if emergencies = [] then
        Inr \<lparr> emergency = False, emergency_type = None, result_severity = ''none'',
              alert_message = None, recommended_action = None, all_concerns = [],
              total_emergencies = None, timestamp = stamp \<rparr>
      else
        let ranked = sort_by_severity emergencies;
            top_emergency = hd ranked
        in
        Inr \<lparr> emergency = True, emergency_type = Some (type top_emergency),
              result_severity = severity top_emergency,
              alert_message = Some (message top_emergency),
              recommended_action = Some (action top_emergency),
              all_concerns = ranked,
              total_emergencies = Some (length ranked), timestamp = stamp \<rparr>))))))"

section \<open>Alert service (\<^verbatim>\<open>alert_service.py\<close>)\<close>

text \<open>
  The service keeps \<^verbatim>\<open>alert_history\<close>, a dictionary from the key
  \<^verbatim>\<open>f"{elder_id}:{alert_type}"\<close> to the list of times at which an alert was recorded.
  \<open>channel_log\<close> is the trace of the calls of \<^verbatim>\<open>_send_fcm_notification\<close> and
  \<^verbatim>\<open>_send_sms_alert\<close>; it is not a field of the source but makes the calls observable.
  The rendering of a value inside an f-string (\<^verbatim>\<open>str\<close>) is the parameter \<open>fmt\<close>.
  The outcome of the external senders (Firebase, Twilio) is the parameter \<open>channels\<close>:
  \<open>True\<close> when the library call returns, \<open>False\<close> when it raises, which the helpers
  catch. The text of an SMS is kept as its parts (title, message, action). The timestamps
  put into the payload and into the result, and the write of the audit document by
  \<^verbatim>\<open>_log_alert\<close> (whose failure is caught there), are left out.
\<close>

definition ALERT_COOLDOWN_MINUTES :: int where
  "ALERT_COOLDOWN_MINUTES = 30"

text \<open>\<^verbatim>\<open>timedelta(minutes=n)\<close> and \<^verbatim>\<open>timedelta(hours=n)\<close> in microseconds.\<close>

definition timedelta_minutes :: "int \<Rightarrow> int" where
  "timedelta_minutes n = n * 60000000"

definition timedelta_hours :: "int \<Rightarrow> int" where
  "timedelta_hours n = n * 3600000000"

datatype title = CriticalEmergency string | Urgent string | Alert string | Notice string

datatype channel_call =
    FcmNotification pyval title string
  | SmsAlert pyval title string string

record channels =
  fcm_send :: "pyval \<Rightarrow> title \<Rightarrow> string \<Rightarrow> bool"
  sms_send :: "pyval \<Rightarrow> title \<Rightarrow> string \<Rightarrow> string \<Rightarrow> bool"

record notified =
  name :: pyval
  fcm :: bool
  sms :: bool

record send_results =
  fcm_sent :: nat
  sms_sent :: nat
  failed :: nat
  family_notified :: "notified list"

record alert_service =
  firebase_initialized :: bool
  twilio_initialized :: bool
  alert_history :: "string \<rightharpoonup> time list"
  channel_log :: "channel_call list"

record alert_result =
  sent :: bool
  reason :: "string option"
  info :: "string option"
  results :: "send_results option"

definition history_key :: "(pyval \<Rightarrow> string) \<Rightarrow> string \<Rightarrow> pyval \<Rightarrow> string" where
  "history_key fmt elder_id alert_type = elder_id @ '':'' @ fmt alert_type"

text \<open>\<^verbatim>\<open>_is_rate_limited\<close>: reads the history, writes nothing.\<close>

definition is_rate_limited ::
  "(pyval \<Rightarrow> string) \<Rightarrow> alert_service \<Rightarrow> time \<Rightarrow> string \<Rightarrow> pyval \<Rightarrow> bool" where
  "is_rate_limited fmt svc now elder_id alert_type =
     (let key = history_key fmt elder_id alert_type;
          cooldown = timedelta_minutes ALERT_COOLDOWN_MINUTES
      in case alert_history svc key of
           Some stamps \<Rightarrow>
             (let recent_alerts = filter (\<lambda>ts. now - ts < cooldown) stamps
              in length recent_alerts > 0)
         | None \<Rightarrow> False)"

text \<open>\<^verbatim>\<open>_record_alert\<close>: appends the current time, then keeps the entries of the last hour.\<close>

definition record_alert ::
  "(pyval \<Rightarrow> string) \<Rightarrow> alert_service \<Rightarrow> time \<Rightarrow> string \<Rightarrow> pyval \<Rightarrow> alert_service" where
  "record_alert fmt svc now elder_id alert_type =
     (let key = history_key fmt elder_id alert_type;
          stamps = (case alert_history svc key of None \<Rightarrow> [] | Some l \<Rightarrow> l) @ [now];
          cutoff = now - timedelta_hours 1
      in svc\<lparr> alert_history := (alert_history svc)(key \<mapsto> filter (\<lambda>ts. ts > cutoff) stamps) \<rparr>)"

text \<open>\<^verbatim>\<open>_format_title\<close>.\<close>

definition format_title :: "string \<Rightarrow> pyval \<Rightarrow> title" where
  "format_title elder_name sev =
     (if py_eq_str sev ''critical'' then CriticalEmergency elder_name
      else if py_eq_str sev ''high'' then Urgent elder_name
      else if py_eq_str sev ''medium'' then Alert elder_name
      else Notice elder_name)"

text \<open>\<^verbatim>\<open>_send_fcm_notification\<close> and \<^verbatim>\<open>_send_sms_alert\<close>: in mock mode (library not
  initialised) they report success without sending.\<close>

definition send_fcm_notification ::
  "channels \<Rightarrow> alert_service \<Rightarrow> pyval \<Rightarrow> title \<Rightarrow> string \<Rightarrow> bool \<times> alert_service" where
  "send_fcm_notification ch svc fcm_token ttl body =
     (let svc' = svc\<lparr> channel_log := channel_log svc @ [FcmNotification fcm_token ttl body] \<rparr>
      in if \<not> firebase_initialized svc then (True, svc')
         else (fcm_send ch fcm_token ttl (take 500 body), svc'))"

definition send_sms_alert ::
  "channels \<Rightarrow> alert_service \<Rightarrow> pyval \<Rightarrow> title \<Rightarrow> string \<Rightarrow> string \<Rightarrow> bool \<times> alert_service" where
  "send_sms_alert ch svc phone ttl msg act =
     (let svc' = svc\<lparr> channel_log := channel_log svc @ [SmsAlert phone ttl msg act] \<rparr>
      in if \<not> twilio_initialized svc then (True, svc')
         else (sms_send ch phone ttl msg act, svc'))"

text \<open>The body of the loop over \<^verbatim>\<open>family_members\<close> in \<^verbatim>\<open>send_emergency_alert\<close>.\<close>

definition notify_member ::
  "channels \<Rightarrow> pyval \<Rightarrow> title \<Rightarrow> string \<Rightarrow> string \<Rightarrow> string \<Rightarrow>
   alert_service \<times> send_results \<Rightarrow> pydict \<Rightarrow> alert_service \<times> send_results" where
  "notify_member ch sev ttl body msg act state family_member =
     (let svc = fst state; res = snd state;
          fcm_token = dict_get family_member ''fcm_token'' PNone;
          phone = dict_get family_member ''phone'' PNone;
          nm = dict_get family_member ''name'' (PStr ''Family Member'');
          s1 = (if truthy fcm_token then
                  (let r = send_fcm_notification ch svc fcm_token ttl body in
                   if fst r then (snd r, res\<lparr> fcm_sent := fcm_sent res + 1 \<rparr>)
                   else (snd r, res\<lparr> failed := failed res + 1 \<rparr>))
                else (svc, res));
          s2 = (if py_eq_str sev ''critical'' \<and> truthy phone then
                  (let r = send_sms_alert ch (fst s1) phone ttl msg act in
                   if fst r then (snd r, (snd s1)\<lparr> sms_sent := sms_sent (snd s1) + 1 \<rparr>)
                   else (snd r, snd s1))
                else s1)
      in (fst s2,
          (snd s2)\<lparr> family_notified := family_notified (snd s2) @
             [\<lparr> name = nm, fcm = (fcm_token \<noteq> PNone),
                sms = (phone \<noteq> PNone \<and> py_eq_str sev ''critical'') \<rparr>] \<rparr>))"

text \<open>\<^verbatim>\<open>send_emergency_alert\<close>. \<open>t_check\<close> is the clock reading of \<^verbatim>\<open>_is_rate_limited\<close>,
  \<open>t_record\<close> the one of \<^verbatim>\<open>_record_alert\<close>. On dictionaries nothing in the \<^verbatim>\<open>try\<close> block
  raises, so the \<^verbatim>\<open>except\<close> branch (reason \<^verbatim>\<open>error\<close>) has no counterpart here.\<close>

definition send_emergency_alert ::
  "(pyval \<Rightarrow> string) \<Rightarrow> channels \<Rightarrow> time \<Rightarrow> time \<Rightarrow> alert_service \<Rightarrow> string \<Rightarrow> string \<Rightarrow>
   pydict \<Rightarrow> pydict list \<Rightarrow> alert_result \<times> alert_service" where
  "send_emergency_alert fmt ch t_check t_record svc elder_id elder_name emergency_data family_members =
     (if is_rate_limited fmt svc t_check elder_id (dict_get emergency_data ''emergency_type'' PNone)
      then (\<lparr> sent = False, reason = Some ''rate_limited'',
               info = Some ''Similar alert sent recently'', results = None \<rparr>, svc)
      else
        let sev = dict_get emergency_data ''severity'' (PStr ''medium'');
            msg = fmt (dict_get emergency_data ''alert_message'' (PStr ''Alert from ElderNest''));
            act = fmt (dict_get emergency_data ''recommended_action'' (PStr []));
            notification_title = format_title elder_name sev;
            notification_body = msg @ [CHR 0x0A, CHR 0x0A] @ act;
            state = foldl (notify_member ch sev notification_title notification_body msg act)
                      (svc, \<lparr> fcm_sent = 0, sms_sent = 0, failed = 0, family_notified = [] \<rparr>)
                      family_members;
            svc' = record_alert fmt (fst state) t_record elder_id
                     (dict_get emergency_data ''emergency_type'' PNone)
        in (\<lparr> sent = True, reason = None, info = None, results = Some (snd state) \<rparr>, svc'))"

section \<open>Multi-modal risk predictor (\<^verbatim>\<open>multi_modal_risk_predictor.py\<close>)\<close>

text \<open>The dictionary built by \<^verbatim>\<open>_extract_features\<close> always has the same fifteen keys; it is
  modelled as a record with one field per key.\<close>

record feature_dict =
  avg_sentiment_7days :: pyval
  lonely_mentions :: pyval
  health_complaints :: pyval
  sad_mood_count :: pyval
  inactive_days :: pyval
  avg_facial_emotion_score :: pyval
  fall_detected_count :: pyval
  distress_episodes :: pyval
  pain_expression_count :: pyval
  camera_inactivity_hours :: pyval
  eating_irregularity :: pyval
  sleep_quality_score :: pyval
  days_without_eating :: pyval
  medicine_missed :: pyval
  emergency_button_presses :: pyval

text \<open>\<^verbatim>\<open>_extract_features\<close>.\<close>

definition extract_features ::
  "pydict \<Rightarrow> pydict \<Rightarrow> pydict \<Rightarrow> pydict \<Rightarrow> pydict \<Rightarrow> feature_dict" where
  "extract_features chat_data mood_data vision_data activity_data health_data =
     \<lparr> avg_sentiment_7days = dict_get chat_data ''avg_sentiment'' (PFloat 0),
       lonely_mentions = dict_get chat_data ''lonely_mentions'' (PInt 0),
       health_complaints = dict_get chat_data ''health_complaints'' (PInt 0),
       sad_mood_count = dict_get mood_data ''sad_count'' (PInt 0),
       inactive_days = dict_get mood_data ''inactive_days'' (PInt 0),
       avg_facial_emotion_score = dict_get vision_data ''emotion_score'' (PFloat 0),
       fall_detected_count = dict_get vision_data ''fall_count'' (PInt 0),
       distress_episodes = dict_get vision_data ''distress_count'' (PInt 0),
       pain_expression_count = dict_get vision_data ''pain_count'' (PInt 0),
       camera_inactivity_hours = dict_get vision_data ''inactivity_hours'' (PFloat 0),
       eating_irregularity = dict_get activity_data ''eating_irregularity'' (PFloat 0),
       sleep_quality_score = dict_get activity_data ''sleep_quality'' (PFloat 1),
       days_without_eating = dict_get activity_data ''days_without_eating'' (PInt 0),
       medicine_missed = dict_get health_data ''medicine_missed'' (PInt 0),
       emergency_button_presses = dict_get health_data ''emergency_button_presses'' (PInt 0) \<rparr>"



text \<open>\<^verbatim>\<open>round(x, 3)\<close>: to the nearest multiple of 1/1000, a tie to the even one.\<close>

definition round_half_even :: "rat \<Rightarrow> int" where
  "round_half_even x =
     (let f = \<lfloor>x\<rfloor>; d = x - of_int f
      in if d < 1 / 2 then f else if d > 1 / 2 then f + 1 else if even f then f else f + 1)"

definition round3 :: "rat \<Rightarrow> rat" where
  "round3 x = of_int (round_half_even (x * 1000)) / 1000"

record probs =
  safe :: rat
  monitor :: rat
  high_risk :: rat

record prediction =
  level :: string
  score :: rat
  probabilities :: probs

text \<open>\<^verbatim>\<open>score += e\<close> where evaluating \<open>e\<close> may raise.\<close>

definition add_term :: "rat \<Rightarrow> error + rat \<Rightarrow> error + rat" where
  "add_term s e = andthen e (\<lambda>t. Inr (s + t))"

text \<open>\<^verbatim>\<open>v - c\<close> and \<^verbatim>\<open>(-v) * c\<close> for a numeric literal \<open>c\<close>.\<close>

definition py_minus :: "pyval \<Rightarrow> rat \<Rightarrow> error + rat" where
  "py_minus v c = (case num v of None \<Rightarrow> Inl TypeError | Some x \<Rightarrow> Inr (x - c))"

definition py_neg_mul :: "pyval \<Rightarrow> rat \<Rightarrow> error + rat" where
  "py_neg_mul v c = andthen (py_neg v) (\<lambda>n. Inr (n * c))"

text \<open>The weighted sum of \<^verbatim>\<open>_predict_with_rules\<close>, statement by statement.\<close>

definition rule_score :: "feature_dict \<Rightarrow> error + rat" where
  "rule_score f =
     andthen (py_gt (fall_detected_count f) 0) (\<lambda>c1.
     andthen (if c1 then add_term 0 (py_mul 3 (fall_detected_count f)) else Inr 0) (\<lambda>s1.
     andthen (py_gt (emergency_button_presses f) 0) (\<lambda>c2.
     andthen (if c2 then add_term s1 (py_mul 4 (emergency_button_presses f)) else Inr s1) (\<lambda>s2.
     andthen (py_gt (days_without_eating f) 0) (\<lambda>c3.
     andthen (if c3 then add_term s2 (py_mul (5 / 2) (days_without_eating f)) else Inr s2) (\<lambda>s3.
     andthen (py_gt (distress_episodes f) 0) (\<lambda>c4.
     andthen (if c4 then add_term s3 (py_mul (3 / 2) (distress_episodes f)) else Inr s3) (\<lambda>s4.
     andthen (py_gt (camera_inactivity_hours f) 12) (\<lambda>c5.
     andthen (if c5 then Inr (s4 + 2) else Inr s4) (\<lambda>s5.
     andthen (py_gt (pain_expression_count f) 2) (\<lambda>c6.
     andthen (if c6 then add_term s5 (andthen (py_minus (pain_expression_count f) 2) (\<lambda>d. Inr (1 * d)))
              else Inr s5) (\<lambda>s6.
     andthen (add_term s6 (py_neg_mul (avg_sentiment_7days f) (3 / 2))) (\<lambda>s7.
     andthen (add_term s7 (py_mul (3 / 10) (sad_mood_count f))) (\<lambda>s8.
     andthen (add_term s8 (py_mul (2 / 10) (lonely_mentions f))) (\<lambda>s9.
     andthen (add_term s9 (py_mul (3 / 10) (health_complaints f))) (\<lambda>s10.
     andthen (add_term s10 (py_mul (4 / 10) (medicine_missed f))) (\<lambda>s11.
     andthen (add_term s11 (py_mul (3 / 10) (inactive_days f))) (\<lambda>s12.
     andthen (add_term s12 (py_neg_mul (avg_facial_emotion_score f) (1 / 2))) (\<lambda>s13.
     andthen (add_term s13 (py_mul (1 / 2) (eating_irregularity f))) (\<lambda>s14.
     add_term s14 (andthen (py_sub 1 (sleep_quality_score f)) (\<lambda>d. Inr (d * (1 / 2)))
     )))))))))))))))))))))"

text \<open>\<^verbatim>\<open>min(1.0, max(0.0, (score + 2) / 12))\<close>.\<close>

definition normalize :: "rat \<Rightarrow> rat" where
  "normalize s = min 1 (max 0 ((s + 2) / 12))"

text \<open>The three bands of \<^verbatim>\<open>_predict_with_rules\<close>.\<close>

definition rule_prediction :: "rat \<Rightarrow> prediction" where
  "rule_prediction normalized =
     (if normalized < 3 / 10 then
        \<lparr> level = ''SAFE'', score = round3 normalized,
          probabilities = \<lparr> safe = round3 (1 - normalized),
                            monitor = round3 (normalized * (7 / 10)),
                            high_risk = round3 (normalized * (3 / 10)) \<rparr> \<rparr>
      else if normalized < 6 / 10 then
        \<lparr> level = ''MONITOR'', score = round3 normalized,
          probabilities = \<lparr> safe = round3 ((1 - normalized) * (1 / 2)),
                            monitor = round3 (1 / 2 + (normalized - 3 / 10) * (1 / 2)),
                            high_risk = round3 (normalized * (3 / 10)) \<rparr> \<rparr>
      else
        \<lparr> level = ''HIGH_RISK'', score = round3 normalized,
          probabilities = \<lparr> safe = round3 ((1 - normalized) * (3 / 10)),
                            monitor = round3 ((1 - normalized) * (1 / 2)),
                            high_risk = round3 normalized \<rparr> \<rparr>)"

text \<open>\<^verbatim>\<open>_predict_with_rules\<close>.\<close>

definition predict_with_rules :: "feature_dict \<Rightarrow> error + prediction" where
  "predict_with_rules f = andthen (rule_score f) (\<lambda>s. Inr (rule_prediction (normalize s)))"











text \<open>The dictionary returned by \<^verbatim>\<open>predict_risk\<close>: the assessment, or, from the
  \<^verbatim>\<open>except Exception\<close> branch, the dictionary with \<^verbatim>\<open>risk_level\<close> \<^verbatim>\<open>'UNKNOWN'\<close>,
  \<^verbatim>\<open>risk_score\<close> 0.0 and the error. The timestamp entry is left out.\<close>

record sources =
  chat :: bool
  mood :: bool
  vision :: bool
  activity :: bool
  health :: bool






section \<open>Notions of the specification\<close>

text \<open>The definitions of this section are not translations of source functions. They state,
  in the words of the specification, what the theorems below compare the code with.\<close>

text \<open>The number a feature holds (0 for an object that is not a number).\<close>

definition value_of :: "pyval \<Rightarrow> rat" where
  "value_of v = (case num v of Some x \<Rightarrow> x | None \<Rightarrow> 0)"






text \<open>The fields that the emergency checks compare with a number hold a number (or are
  absent, in which case the default 0 is compared).\<close>

definition comparable_fields :: "pydict \<Rightarrow> pydict \<Rightarrow> pydict \<Rightarrow> bool" where
  "comparable_fields vision_data activity_data health_data =
     (num (dict_get health_data ''pain_score'' (PInt 0)) \<noteq> None \<and>
      num (dict_get vision_data ''pain_expression_count'' (PInt 0)) \<noteq> None \<and>
      num (dict_get health_data ''health_complaints'' (PInt 0)) \<noteq> None \<and>
      num (dict_get activity_data ''days_without_eating'' (PInt 0)) \<noteq> None \<and>
      num (dict_get activity_data ''max_inactivity_hours'' (PInt 0)) \<noteq> None \<and>
      num (dict_get health_data ''emergency_button_presses'' (PInt 0)) \<noteq> None \<and>
      num (dict_get health_data ''medicine_missed'' (PInt 0)) \<noteq> None)"

text \<open>The candidates that the checks returned, in check order.\<close>

definition triggered :: "candidate option list \<Rightarrow> candidate list" where
  "triggered cs = List.map_filter (\<lambda>c. c) cs"

section \<open>Basic facts\<close>

lemma andthen_simps:
  "andthen (Inl e) f = Inl e"
  "andthen (Inr x) f = f x"
  by (simp_all add: andthen_def)

lemma dict_get_simps:
  "d k = None \<Longrightarrow> dict_get d k dflt = dflt"
  "d k = Some x \<Longrightarrow> dict_get d k dflt = x"
  by (simp_all add: dict_get_def)

lemma dict_get_other: "k \<noteq> k' \<Longrightarrow> dict_get (d(k := x)) k' dflt = dict_get d k' dflt"
  by (simp add: dict_get_def)

lemma py_cmp_num:
  "num v = Some x \<Longrightarrow> py_gt v c = Inr (c < x)"
  "num v = Some x \<Longrightarrow> py_ge v c = Inr (c \<le> x)"
  "num v = Some x \<Longrightarrow> py_lt v c = Inr (x < c)"
  by (simp_all add: py_gt_def py_ge_def py_lt_def)

lemma py_cmp_not_num:
  "num v = None \<Longrightarrow> py_gt v c = Inl TypeError"
  "num v = None \<Longrightarrow> py_ge v c = Inl TypeError"
  "num v = None \<Longrightarrow> py_lt v c = Inl TypeError"
  by (simp_all add: py_gt_def py_ge_def py_lt_def)


lemma py_arith_not_num:
  "num v = None \<Longrightarrow> py_mul c v = Inl TypeError"
  "num v = None \<Longrightarrow> py_neg v = Inl TypeError"
  "num v = None \<Longrightarrow> py_sub c v = Inl TypeError"
  "num v = None \<Longrightarrow> py_minus v c = Inl TypeError"
  "num v = None \<Longrightarrow> py_neg_mul v c = Inl TypeError"
  by (simp_all add: py_mul_def py_neg_def py_sub_def py_minus_def py_neg_mul_def andthen_def)

section \<open>The fall check\<close>

lemma minutes_threshold:
  "(THRESHOLD_fall_no_movement_minutes \<le> (of_int d :: rat) / 1000000 / 60) \<longleftrightarrow> timedelta_minutes 5 \<le> d"
proof -
  have "(5 \<le> (of_int d :: rat) / 60000000) \<longleftrightarrow> (5 * 60000000 \<le> (of_int d :: rat))"
    by (simp add: pos_le_divide_eq)
  also have "\<dots> \<longleftrightarrow> (of_int (300000000::int) \<le> (of_int d :: rat))" by simp
  also have "\<dots> \<longleftrightarrow> 300000000 \<le> d" by (simp only: of_int_le_iff)
  finally show ?thesis
    by (simp add: THRESHOLD_fall_no_movement_minutes_def timedelta_minutes_def)
qed



lemma time_since_fall_cases:
  "time_since_fall p now ts = Inr m \<longleftrightarrow>
     (\<exists>s t. ts = PStr s \<and> p s = Some (Naive t) \<and> m = of_int (now - t) / 1000000 / 60)"
  by (auto simp: time_since_fall_def split: pyval.splits option.splits datetime.splits)


lemma check_fall_immediate:
  assumes "truthy (dict_get v ''fall_detected'' PNone)"
    and "\<not> (\<exists>s t. dict_get v ''fall_timestamp'' PNone = PStr s \<and> s \<noteq> [] \<and>
                 p s = Some (Naive t) \<and> timedelta_minutes 5 \<le> now - t)"
  shows "check_fall_emergency p now v ev = Some fall_detected"
proof (cases "time_since_fall p now (dict_get v ''fall_timestamp'' PNone)")
  case (Inl e)
  then show ?thesis using assms(1) by (simp add: check_fall_emergency_def Let_def)
next
  case (Inr m)
  then obtain s t where st: "dict_get v ''fall_timestamp'' PNone = PStr s" "p s = Some (Naive t)"
      "m = of_int (now - t) / 1000000 / 60"
    unfolding time_since_fall_cases by blast
  show ?thesis
  proof (cases "s = []")
    case True
    then show ?thesis using assms(1) st(1) by (simp add: check_fall_emergency_def Let_def)
  next
    case False
    with assms(2) st have "\<not> timedelta_minutes 5 \<le> now - t" by blast
    then have "\<not> THRESHOLD_fall_no_movement_minutes \<le> m"
      using minutes_threshold[of "now - t"] unfolding st(3) by blast
    then show ?thesis using assms(1) Inr
      by (simp add: check_fall_emergency_def Let_def)
  qed
qed



section \<open>The engine: collection and selection\<close>

lemma check_fall_ignores_bad_timestamp:
  assumes "truthy (dict_get v ''fall_detected'' PNone)"
    and "v ''fall_timestamp'' = Some ts"
    and "(\<forall>s. ts \<noteq> PStr s) \<or> (\<exists>s. ts = PStr s \<and> p s = None)"
  shows "check_fall_emergency p now v ev = Some fall_detected"
proof (rule check_fall_immediate[OF assms(1)])
  show "\<not> (\<exists>s t. dict_get v ''fall_timestamp'' PNone = PStr s \<and> s \<noteq> [] \<and>
                 p s = Some (Naive t) \<and> timedelta_minutes 5 \<le> now - t)"
    using assms(2,3) by (auto simp: dict_get_def)
qed

lemma check_fall_no_timestamp:
  assumes "truthy (dict_get v ''fall_detected'' PNone)"
  shows "check_fall_emergency p now (v(''fall_timestamp'' := None)) ev = Some fall_detected"
  using assms by (simp add: check_fall_emergency_def dict_get_def)

lemma other_checks_ignore_timestamp:
  "check_distress_emergency (v(''fall_timestamp'' := None)) = check_distress_emergency v"
  "check_pain_emergency (v(''fall_timestamp'' := None)) h = check_pain_emergency v h"
  "check_combined_risks (v(''fall_timestamp'' := None)) a h = check_combined_risks v a h"
  by (simp_all add: check_distress_emergency_def check_pain_emergency_def check_combined_risks_def
        dict_get_def)

lemma detect_emergency_ignores_bad_timestamp:
  assumes "truthy (dict_get v ''fall_detected'' PNone)"
    and "v ''fall_timestamp'' = Some ts"
    and "(\<forall>s. ts \<noteq> PStr s) \<or> (\<exists>s. ts = PStr s \<and> p s = None)"
  shows "detect_emergency p now stamp (Some v) a h e =
         detect_emergency p now stamp (Some (v(''fall_timestamp'' := None))) a h e"
  unfolding detect_emergency_def or_empty_def
  by (simp add: check_fall_ignores_bad_timestamp[OF assms] check_fall_no_timestamp[OF assms(1)]
        other_checks_ignore_timestamp)


lemma hd_sort_key:
  assumes "xs \<noteq> []"
  shows "\<exists>k. (\<forall>x \<in> set xs. k \<le> f x) \<and> filter (\<lambda>x. f x = k) xs \<noteq> [] \<and>
             hd (sort_key f xs) = hd (filter (\<lambda>x. f x = k) xs)"
proof -
  let ?ys = "sort_key f xs"
  from assms have ne: "?ys \<noteq> []" by (metis length_sort length_0_conv)
  then obtain y ys' where ys: "?ys = y # ys'" by (cases ?ys) auto
  have "sorted (map f ?ys)" by (rule sorted_sort_key)
  with ys have le: "\<forall>x \<in> set ?ys. f y \<le> f x" by auto
  have st: "filter (\<lambda>x. f x = f y) ?ys = filter (\<lambda>x. f x = f y) xs"
    by (rule sort_key_stable)
  have "filter (\<lambda>x. f x = f y) ?ys = y # filter (\<lambda>x. f x = f y) ys'"
    by (simp add: ys)
  with st have "filter (\<lambda>x. f x = f y) xs = y # filter (\<lambda>x. f x = f y) ys'" by simp
  then have "filter (\<lambda>x. f x = f y) xs \<noteq> []" "hd (filter (\<lambda>x. f x = f y) xs) = y" by simp_all
  moreover have "hd ?ys = y" by (simp add: ys)
  moreover from le have "\<forall>x \<in> set xs. f y \<le> f x" by simp
  ultimately show ?thesis by metis
qed

lemma hd_sort_key_first:
  assumes "\<forall>y \<in> set xs. f x \<le> f y"
  shows "hd (sort_key f (x # xs)) = x"
proof -
  obtain k where k: "\<forall>y \<in> set (x # xs). k \<le> f y" "filter (\<lambda>y. f y = k) (x # xs) \<noteq> []"
     "hd (sort_key f (x # xs)) = hd (filter (\<lambda>y. f y = k) (x # xs))"
    using hd_sort_key[of "x # xs" f] by blast
  from k(2) obtain z where z: "z \<in> set (x # xs)" "f z = k"
    by (metis (mono_tags, lifting) filter_False)
  with assms have "f x \<le> k" by auto
  moreover from k(1) have "k \<le> f x" by simp
  ultimately have "f x = k" by simp
  then show ?thesis using k(3) by simp
qed


lemma foldl_append_some: "foldl append_some acc cs = acc @ triggered cs"
proof (induction cs arbitrary: acc)
  case Nil
  then show ?case by (simp add: triggered_def List.map_filter_def)
next
  case (Cons c cs)
  then show ?case
    by (cases c) (simp_all add: append_some_def triggered_def List.map_filter_def)
qed

lemma append_some_chain:
  "append_some (append_some (append_some (append_some (append_some (append_some
     (append_some [] c1) c2) c3) c4) c5) c6) c7 = triggered [c1, c2, c3, c4, c5, c6, c7]"
proof -
  have "append_some (append_some (append_some (append_some (append_some (append_some
     (append_some [] c1) c2) c3) c4) c5) c6) c7 = foldl append_some [] [c1, c2, c3, c4, c5, c6, c7]"
    by simp
  then show ?thesis by (simp only: foldl_append_some append_Nil)
qed

lemma detect_emergency_collect:
  assumes "check_pain_emergency (or_empty v) (or_empty h) = Inr c3"
    and "check_eating_emergency (or_empty a) = Inr c4"
    and "check_inactivity_emergency (or_empty a) = Inr c5"
    and "check_emergency_button (or_empty h) = Inr c6"
    and "check_combined_risks (or_empty v) (or_empty a) (or_empty h) = Inr c7"
  shows "detect_emergency p now stamp v a h e =
     (let es = triggered [check_fall_emergency p now (or_empty v) (case e of None \<Rightarrow> [] | Some l \<Rightarrow> l),
                          check_distress_emergency (or_empty v), c3, c4, c5, c6, c7]
      in if es = [] then
           Inr \<lparr> emergency = False, emergency_type = None, result_severity = ''none'',
                 alert_message = None, recommended_action = None, all_concerns = [],
                 total_emergencies = None, timestamp = stamp \<rparr>
         else
           Inr \<lparr> emergency = True, emergency_type = Some (type (hd (sort_by_severity es))),
                 result_severity = severity (hd (sort_by_severity es)),
                 alert_message = Some (message (hd (sort_by_severity es))),
                 recommended_action = Some (action (hd (sort_by_severity es))),
                 all_concerns = sort_by_severity es,
                 total_emergencies = Some (length (sort_by_severity es)), timestamp = stamp \<rparr>)"
  unfolding detect_emergency_def Let_def assms andthen_simps append_some_chain
  by (rule refl)

lemma checks_total:
  assumes "comparable_fields v a h"
  shows "\<exists>c. check_pain_emergency v h = Inr c"
    and "\<exists>c. check_eating_emergency a = Inr c"
    and "\<exists>c. check_inactivity_emergency a = Inr c"
    and "\<exists>c. check_emergency_button h = Inr c"
    and "\<exists>c. check_combined_risks v a h = Inr c"
  using assms
  by (auto simp: comparable_fields_def check_pain_emergency_def check_eating_emergency_def
       check_inactivity_emergency_def check_emergency_button_def check_combined_risks_def
       Let_def py_cmp_num andthen_simps)


lemma triggered_Cons:
  "triggered (Some x # cs) = x # triggered cs"
  "triggered (None # cs) = triggered cs"
  by (simp_all add: triggered_def List.map_filter_def)

lemma severity_order_le: "severity_order s \<le> 4"
  by (simp add: severity_order_def)

lemma sort_by_severity_critical_first:
  assumes "severity x = ''critical''"
  shows "hd (sort_by_severity (x # xs)) = x"
  unfolding sort_by_severity_def
proof (rule hd_sort_key_first)
  show "\<forall>y\<in>set xs. - severity_order (severity x) \<le> - severity_order (severity y)"
    using assms severity_order_le by (simp add: severity_order_def)
qed

text \<open>
  Claim C10. When \<^verbatim>\<open>fall_detected\<close> is true and \<^verbatim>\<open>fall_timestamp\<close> is present but is not a
  string, or is a string that \<^verbatim>\<open>fromisoformat\<close> rejects, the fall check does not raise: it
  emits the immediate \<^verbatim>\<open>fall_detected\<close> candidate, and the whole engine returns what it
  returns when the timestamp is removed from the input. Where the fields that the other
  checks compare with numbers are numbers, the engine returns a result whose primary
  emergency is \<^verbatim>\<open>fall_detected\<close>, critical.
\<close>

theorem unparseable_fall_timestamp_degrades:
  assumes "truthy (dict_get v ''fall_detected'' PNone)"
    and "v ''fall_timestamp'' = Some ts"
    and "(\<forall>s. ts \<noteq> PStr s) \<or> (\<exists>s. ts = PStr s \<and> p s = None)"
  shows "check_fall_emergency p now v ev = Some fall_detected \<and>
         detect_emergency p now stamp (Some v) a h e =
           detect_emergency p now stamp (Some (v(''fall_timestamp'' := None))) a h e \<and>
         (comparable_fields v (or_empty a) (or_empty h) \<longrightarrow>
            (\<exists>r. detect_emergency p now stamp (Some v) a h e = Inr r \<and> emergency r \<and>
                 emergency_type r = Some ''fall_detected'' \<and> result_severity r = ''critical'' \<and>
                 fall_detected \<in> set (all_concerns r)))"
proof (intro conjI impI)
  show "check_fall_emergency p now v ev = Some fall_detected"
    by (rule check_fall_ignores_bad_timestamp[OF assms])
  show "detect_emergency p now stamp (Some v) a h e =
           detect_emergency p now stamp (Some (v(''fall_timestamp'' := None))) a h e"
    by (rule detect_emergency_ignores_bad_timestamp[OF assms])
next
  assume cf: "comparable_fields v (or_empty a) (or_empty h)"
  have v: "or_empty (Some v) = v" by (simp add: or_empty_def)
  from checks_total[OF cf] obtain c3 c4 c5 c6 c7 where c:
    "check_pain_emergency (or_empty (Some v)) (or_empty h) = Inr c3"
    "check_eating_emergency (or_empty a) = Inr c4"
    "check_inactivity_emergency (or_empty a) = Inr c5"
    "check_emergency_button (or_empty h) = Inr c6"
    "check_combined_risks (or_empty (Some v)) (or_empty a) (or_empty h) = Inr c7"
    unfolding v by blast
  define rest where "rest = triggered [check_distress_emergency v, c3, c4, c5, c6, c7]"
  have fall: "check_fall_emergency p now v (case e of None \<Rightarrow> [] | Some l \<Rightarrow> l) = Some fall_detected"
    by (rule check_fall_ignores_bad_timestamp[OF assms])
  have es: "triggered [check_fall_emergency p now (or_empty (Some v)) (case e of None \<Rightarrow> [] | Some l \<Rightarrow> l),
                       check_distress_emergency (or_empty (Some v)), c3, c4, c5, c6, c7] = fall_detected # rest"
    unfolding v fall rest_def by (simp only: triggered_Cons)
  have crit: "severity fall_detected = ''critical''" by (simp add: fall_detected_def)
  have ty: "type fall_detected = ''fall_detected''" by (simp add: fall_detected_def)
  have top: "hd (sort_by_severity (fall_detected # rest)) = fall_detected"
    by (rule sort_by_severity_critical_first[OF crit])
  have mem: "fall_detected \<in> set (sort_by_severity (fall_detected # rest))"
    unfolding sort_by_severity_def set_sort by simp
  show "\<exists>r. detect_emergency p now stamp (Some v) a h e = Inr r \<and> emergency r \<and>
                 emergency_type r = Some ''fall_detected'' \<and> result_severity r = ''critical'' \<and>
                 fall_detected \<in> set (all_concerns r)"
    unfolding detect_emergency_collect[OF c] es Let_def
    using mem by (simp add: top crit ty)
qed

theorem unparseable_fall_timestamp_degrades_witness:
  "check_fall_emergency (\<lambda>s. None) 0
     [''fall_detected'' \<mapsto> PBool True, ''fall_timestamp'' \<mapsto> PStr ''yesterday''] [] = Some fall_detected \<and>
   detect_emergency (\<lambda>s. None) 0 0
     (Some [''fall_detected'' \<mapsto> PBool True, ''fall_timestamp'' \<mapsto> PInt 5]) None None None =
   detect_emergency (\<lambda>s. None) 0 0
     (Some ([''fall_detected'' \<mapsto> PBool True, ''fall_timestamp'' \<mapsto> PInt 5](''fall_timestamp'' := None)))
     None None None \<and>
   (\<exists>r. detect_emergency (\<lambda>s. None) 0 0
          (Some [''fall_detected'' \<mapsto> PBool True, ''fall_timestamp'' \<mapsto> PInt 5]) None None None = Inr r \<and>
        emergency r \<and> emergency_type r = Some ''fall_detected'' \<and> result_severity r = ''critical'')"
proof -
  let ?v = "[''fall_detected'' \<mapsto> PBool True, ''fall_timestamp'' \<mapsto> PStr ''yesterday'']"
  let ?w = "[''fall_detected'' \<mapsto> PBool True, ''fall_timestamp'' \<mapsto> PInt 5]"
  have v1: "truthy (dict_get ?v ''fall_detected'' PNone)" by (simp add: dict_get_def)
  have v2: "?v ''fall_timestamp'' = Some (PStr ''yesterday'')" by simp
  have v3: "(\<forall>s. PStr ''yesterday'' \<noteq> PStr s) \<or>
            (\<exists>s. PStr ''yesterday'' = PStr s \<and> (\<lambda>s. None :: datetime option) s = None)" by simp
  have w1: "truthy (dict_get ?w ''fall_detected'' PNone)" by (simp add: dict_get_def)
  have w2: "?w ''fall_timestamp'' = Some (PInt 5)" by simp
  have w3: "(\<forall>s. PInt 5 \<noteq> PStr s) \<or>
            (\<exists>s. PInt 5 = PStr s \<and> (\<lambda>s. None :: datetime option) s = None)" by simp
  have w4: "comparable_fields ?w (or_empty None) (or_empty None)"
    by (simp add: comparable_fields_def or_empty_def dict_get_def)
  from unparseable_fall_timestamp_degrades[OF v1 v2 v3, where now = 0 and ev = "[]" and stamp = 0
         and a = None and h = None and e = None]
       unparseable_fall_timestamp_degrades[OF w1 w2 w3, where now = 0 and ev = "[]" and stamp = 0
         and a = None and h = None and e = None] w4
  show ?thesis by blast
qed

section \<open>The pain check\<close>

lemma check_pain_cases:
  assumes "pd = dict_get vision_data ''pain_detected'' (PBool False)"
    and "ps = dict_get health_data ''pain_score'' (PInt 0)"
    and "pe = dict_get vision_data ''pain_expression_count'' (PInt 0)"
    and "hc = dict_get health_data ''health_complaints'' (PInt 0)"
  shows "check_pain_emergency vision_data health_data =
     (if truthy pd \<and> num ps = None then Inl TypeError
      else if truthy pd \<and> 7 / 10 < value_of ps then Inr (Some (severe_pain ps pe))
      else if num pe = None then Inl TypeError
      else if \<not> 3 < value_of pe then Inr None
      else if num hc = None then Inl TypeError
      else if 2 < value_of hc then Inr (Some (pain_indicators pe hc))
      else Inr None)"
  unfolding check_pain_emergency_def Let_def assms[symmetric]
  by (cases "num ps"; cases "num pe"; cases "num hc")
     (simp_all add: py_cmp_num py_cmp_not_num andthen_simps value_of_def
        THRESHOLD_pain_score_threshold_def)

text \<open>
  Claim C8, as amended. \<^verbatim>\<open>pain_detected\<close> and \<^verbatim>\<open>pain_expression_count\<close> are fields of the vision
  summary; \<^verbatim>\<open>pain_score\<close> and \<^verbatim>\<open>health_complaints\<close> are read from the health summary
  (defaults False, 0, 0, 0). The check emits the high-severity \<^verbatim>\<open>severe_pain\<close> candidate exactly
  when \<^verbatim>\<open>pain_detected\<close> is true and the health summary's \<^verbatim>\<open>pain_score\<close> exceeds 0.7;
  otherwise it emits the medium-severity \<^verbatim>\<open>pain_indicators\<close> candidate exactly when
  \<^verbatim>\<open>pain_expression_count > 3\<close> and \<^verbatim>\<open>health_complaints > 2\<close>. It never emits both: the
  high-severity condition is checked first.
\<close>

theorem pain_check_reads_score_from_health:
  assumes "pd = dict_get vision_data ''pain_detected'' (PBool False)"
    and "ps = dict_get health_data ''pain_score'' (PInt 0)"
    and "pe = dict_get vision_data ''pain_expression_count'' (PInt 0)"
    and "hc = dict_get health_data ''health_complaints'' (PInt 0)"
  shows "((\<exists>c. check_pain_emergency vision_data health_data = Inr (Some c) \<and> severity c = ''high'') \<longleftrightarrow>
            truthy pd \<and> (\<exists>x. num ps = Some x \<and> 7 / 10 < x)) \<and>
         (truthy pd \<and> (\<exists>x. num ps = Some x \<and> 7 / 10 < x) \<longrightarrow>
            check_pain_emergency vision_data health_data = Inr (Some (severe_pain ps pe))) \<and>
         ((\<exists>c. check_pain_emergency vision_data health_data = Inr (Some c) \<and> severity c = ''medium'') \<longleftrightarrow>
            (\<not> truthy pd \<or> (\<exists>x. num ps = Some x \<and> x \<le> 7 / 10)) \<and>
            (\<exists>y. num pe = Some y \<and> 3 < y) \<and> (\<exists>z. num hc = Some z \<and> 2 < z)) \<and>
         ((\<not> truthy pd \<or> (\<exists>x. num ps = Some x \<and> x \<le> 7 / 10)) \<and>
            (\<exists>y. num pe = Some y \<and> 3 < y) \<and> (\<exists>z. num hc = Some z \<and> 2 < z) \<longrightarrow>
            check_pain_emergency vision_data health_data = Inr (Some (pain_indicators pe hc))) \<and>
         (\<forall>c. check_pain_emergency vision_data health_data = Inr (Some c) \<longrightarrow>
            c = severe_pain ps pe \<or> c = pain_indicators pe hc)"
  unfolding check_pain_cases[OF assms]
  by (cases "num ps"; cases "num pe"; cases "num hc")
     (auto simp: value_of_def severe_pain_def pain_indicators_def)


theorem pain_check_reads_score_from_health_witness:
  "check_pain_emergency [''pain_detected'' \<mapsto> PBool True, ''pain_expression_count'' \<mapsto> PInt 4]
     [''pain_score'' \<mapsto> PFloat (9 / 10), ''health_complaints'' \<mapsto> PInt 3] =
     Inr (Some (severe_pain (PFloat (9 / 10)) (PInt 4))) \<and>
   check_pain_emergency [''pain_expression_count'' \<mapsto> PInt 4] [''health_complaints'' \<mapsto> PInt 3] =
     Inr (Some (pain_indicators (PInt 4) (PInt 3)))"
proof -
  let ?v = "[''pain_detected'' \<mapsto> PBool True, ''pain_expression_count'' \<mapsto> PInt 4]"
  let ?h = "[''pain_score'' \<mapsto> PFloat (9 / 10), ''health_complaints'' \<mapsto> PInt 3]"
  let ?v' = "[''pain_expression_count'' \<mapsto> PInt 4]"
  let ?h' = "[''health_complaints'' \<mapsto> PInt 3]"
  have a: "truthy (dict_get ?v ''pain_detected'' (PBool False)) \<and>
           (\<exists>x. num (dict_get ?h ''pain_score'' (PInt 0)) = Some x \<and> 7 / 10 < x)"
    by (intro conjI exI[of _ "9 / 10"]) (simp_all add: dict_get_def)
  have b: "(\<not> truthy (dict_get ?v' ''pain_detected'' (PBool False)) \<or>
            (\<exists>x. num (dict_get ?h' ''pain_score'' (PInt 0)) = Some x \<and> x \<le> 7 / 10)) \<and>
           (\<exists>y. num (dict_get ?v' ''pain_expression_count'' (PInt 0)) = Some y \<and> 3 < y) \<and>
           (\<exists>z. num (dict_get ?h' ''health_complaints'' (PInt 0)) = Some z \<and> 2 < z)"
    by (simp add: dict_get_def)
  have "check_pain_emergency ?v ?h =
          Inr (Some (severe_pain (dict_get ?h ''pain_score'' (PInt 0))
                       (dict_get ?v ''pain_expression_count'' (PInt 0))))"
    using pain_check_reads_score_from_health[OF refl refl refl refl, of ?v ?h] a by blast
  moreover have "check_pain_emergency ?v' ?h' =
          Inr (Some (pain_indicators (dict_get ?v' ''pain_expression_count'' (PInt 0))
                       (dict_get ?h' ''health_complaints'' (PInt 0))))"
    using pain_check_reads_score_from_health[OF refl refl refl refl, of ?v' ?h'] b by blast
  ultimately show ?thesis by (simp add: dict_get_def)
qed

text \<open>
  Claim C8 as stated fails: with \<^verbatim>\<open>pain_detected\<close> true and a \<^verbatim>\<open>pain_score\<close> of 0.9 in the
  vision summary, and an empty health summary, no candidate is emitted.
\<close>

theorem pain_score_in_vision_counterexample:
  "truthy (dict_get [''pain_detected'' \<mapsto> PBool True, ''pain_score'' \<mapsto> PFloat (9 / 10)] ''pain_detected'' (PBool False)) \<and>
   num (dict_get [''pain_detected'' \<mapsto> PBool True, ''pain_score'' \<mapsto> PFloat (9 / 10)] ''pain_score'' (PInt 0)) = Some (9 / 10) \<and>
   check_pain_emergency [''pain_detected'' \<mapsto> PBool True, ''pain_score'' \<mapsto> PFloat (9 / 10)] Map.empty = Inr None"
  by (simp add: check_pain_emergency_def dict_get_def py_gt_def andthen_def
        THRESHOLD_pain_score_threshold_def)

section \<open>Feature extraction\<close>

text \<open>
  Claim C9, as amended. \<^verbatim>\<open>_extract_features\<close> returns the record of fifteen features; it is a
  total function of its five dictionaries (it cannot raise and changes nothing). Each feature
  is the value of one source field, or its default when the field is absent:
  chat \<^verbatim>\<open>avg_sentiment\<close> (0.0), \<^verbatim>\<open>lonely_mentions\<close> (0), \<^verbatim>\<open>health_complaints\<close> (0);
  mood \<^verbatim>\<open>sad_count\<close> (0), \<^verbatim>\<open>inactive_days\<close> (0);
  vision \<^verbatim>\<open>emotion_score\<close> (0.0), \<^verbatim>\<open>fall_count\<close> (0), \<^verbatim>\<open>distress_count\<close> (0),
  \<^verbatim>\<open>pain_count\<close> (0), \<^verbatim>\<open>inactivity_hours\<close> (0.0);
  activity \<^verbatim>\<open>eating_irregularity\<close> (0.0), \<^verbatim>\<open>sleep_quality\<close> (1.0), \<^verbatim>\<open>days_without_eating\<close> (0);
  health \<^verbatim>\<open>medicine_missed\<close> (0), \<^verbatim>\<open>emergency_button_presses\<close> (0).
\<close>

theorem extract_features_sources:
  "extract_features Map.empty Map.empty Map.empty Map.empty Map.empty =
     \<lparr> avg_sentiment_7days = PFloat 0, lonely_mentions = PInt 0, health_complaints = PInt 0,
       sad_mood_count = PInt 0, inactive_days = PInt 0, avg_facial_emotion_score = PFloat 0,
       fall_detected_count = PInt 0, distress_episodes = PInt 0, pain_expression_count = PInt 0,
       camera_inactivity_hours = PFloat 0, eating_irregularity = PFloat 0,
       sleep_quality_score = PFloat 1, days_without_eating = PInt 0, medicine_missed = PInt 0,
       emergency_button_presses = PInt 0 \<rparr> \<and>
   avg_sentiment_7days (extract_features c m v a h) = (case c ''avg_sentiment'' of Some x \<Rightarrow> x | None \<Rightarrow> PFloat 0) \<and>
   lonely_mentions (extract_features c m v a h) = (case c ''lonely_mentions'' of Some x \<Rightarrow> x | None \<Rightarrow> PInt 0) \<and>
   health_complaints (extract_features c m v a h) = (case c ''health_complaints'' of Some x \<Rightarrow> x | None \<Rightarrow> PInt 0) \<and>
   sad_mood_count (extract_features c m v a h) = (case m ''sad_count'' of Some x \<Rightarrow> x | None \<Rightarrow> PInt 0) \<and>
   inactive_days (extract_features c m v a h) = (case m ''inactive_days'' of Some x \<Rightarrow> x | None \<Rightarrow> PInt 0) \<and>
   avg_facial_emotion_score (extract_features c m v a h) = (case v ''emotion_score'' of Some x \<Rightarrow> x | None \<Rightarrow> PFloat 0) \<and>
   fall_detected_count (extract_features c m v a h) = (case v ''fall_count'' of Some x \<Rightarrow> x | None \<Rightarrow> PInt 0) \<and>
   distress_episodes (extract_features c m v a h) = (case v ''distress_count'' of Some x \<Rightarrow> x | None \<Rightarrow> PInt 0) \<and>
   pain_expression_count (extract_features c m v a h) = (case v ''pain_count'' of Some x \<Rightarrow> x | None \<Rightarrow> PInt 0) \<and>
   camera_inactivity_hours (extract_features c m v a h) = (case v ''inactivity_hours'' of Some x \<Rightarrow> x | None \<Rightarrow> PFloat 0) \<and>
   eating_irregularity (extract_features c m v a h) = (case a ''eating_irregularity'' of Some x \<Rightarrow> x | None \<Rightarrow> PFloat 0) \<and>
   sleep_quality_score (extract_features c m v a h) = (case a ''sleep_quality'' of Some x \<Rightarrow> x | None \<Rightarrow> PFloat 1) \<and>
   days_without_eating (extract_features c m v a h) = (case a ''days_without_eating'' of Some x \<Rightarrow> x | None \<Rightarrow> PInt 0) \<and>
   medicine_missed (extract_features c m v a h) = (case h ''medicine_missed'' of Some x \<Rightarrow> x | None \<Rightarrow> PInt 0) \<and>
   emergency_button_presses (extract_features c m v a h) = (case h ''emergency_button_presses'' of Some x \<Rightarrow> x | None \<Rightarrow> PInt 0)"
  by (simp add: extract_features_def dict_get_def)

theorem extract_features_sources_witness:
  "pain_expression_count (extract_features Map.empty Map.empty
      [''pain_count'' \<mapsto> PInt 5, ''fall_count'' \<mapsto> PInt 2] Map.empty Map.empty) = PInt 5 \<and>
   fall_detected_count (extract_features Map.empty Map.empty
      [''pain_count'' \<mapsto> PInt 5, ''fall_count'' \<mapsto> PInt 2] Map.empty Map.empty) = PInt 2 \<and>
   sleep_quality_score (extract_features Map.empty Map.empty
      [''pain_count'' \<mapsto> PInt 5, ''fall_count'' \<mapsto> PInt 2] Map.empty Map.empty) = PFloat 1"
  using extract_features_sources[of Map.empty Map.empty "[''pain_count'' \<mapsto> PInt 5, ''fall_count'' \<mapsto> PInt 2]" Map.empty Map.empty]
  by simp

text \<open>
  Claim C9 as stated fails: the vision fields \<^verbatim>\<open>pain_expression_count\<close> and \<^verbatim>\<open>fall_detected\<close>
  of the documented interface are not read; with them present the features
  \<^verbatim>\<open>pain_expression_count\<close> and \<^verbatim>\<open>fall_detected_count\<close> keep their default 0.
\<close>

theorem documented_vision_names_counterexample:
  "pain_expression_count (extract_features Map.empty Map.empty
      [''pain_expression_count'' \<mapsto> PInt 5, ''fall_detected'' \<mapsto> PBool True] Map.empty Map.empty) = PInt 0 \<and>
   fall_detected_count (extract_features Map.empty Map.empty
      [''pain_expression_count'' \<mapsto> PInt 5, ''fall_detected'' \<mapsto> PBool True] Map.empty Map.empty) = PInt 0"
  by (simp add: extract_features_def dict_get_def)

section \<open>The rule-based scorer\<close>















section \<open>The probabilities of the rule-based scorer\<close>







text \<open>In the MONITOR and HIGH_RISK bands the expressions do not sum to 1 before rounding
  (\<^verbatim>\<open>0.85 + 0.3 n\<close> and \<^verbatim>\<open>0.8 + 0.2 n\<close>); one fall, and three falls, with all else absent:\<close>

lemma monitor_band_sum_example:
  "predict_with_rules (extract_features Map.empty Map.empty [''fall_count'' \<mapsto> PInt 1] Map.empty Map.empty) =
     Inr \<lparr> level = ''MONITOR'', score = 417 / 1000,
           probabilities = \<lparr> safe = 292 / 1000, monitor = 558 / 1000, high_risk = 125 / 1000 \<rparr> \<rparr>"
  by code_simp

lemma high_risk_band_sum_example:
  "predict_with_rules (extract_features Map.empty Map.empty [''fall_count'' \<mapsto> PInt 3] Map.empty Map.empty) =
     Inr \<lparr> level = ''HIGH_RISK'', score = 917 / 1000,
           probabilities = \<lparr> safe = 25 / 1000, monitor = 42 / 1000, high_risk = 917 / 1000 \<rparr> \<rparr>"
  by code_simp

section \<open>The risk assessment entry point\<close>


























section \<open>The alert dispatcher and its rate limiter\<close>

lemma notify_member_frame:
  "alert_history (fst (notify_member ch sev ttl body msg act st fm)) = alert_history (fst st)"
  "firebase_initialized (fst (notify_member ch sev ttl body msg act st fm)) = firebase_initialized (fst st)"
  "twilio_initialized (fst (notify_member ch sev ttl body msg act st fm)) = twilio_initialized (fst st)"
  by (simp_all add: notify_member_def Let_def send_fcm_notification_def send_sms_alert_def)

lemma notify_all_history:
  "alert_history (fst (foldl (notify_member ch sev ttl body msg act) st fms)) = alert_history (fst st)"
  by (induction fms arbitrary: st) (simp_all add: notify_member_frame)

lemma is_rate_limited_iff:
  "is_rate_limited fmt svc now elder_id alert_type \<longleftrightarrow>
     (\<exists>ts \<in> set (case alert_history svc (history_key fmt elder_id alert_type) of None \<Rightarrow> [] | Some l \<Rightarrow> l).
        now - ts < timedelta_minutes 30)"
  by (auto simp: is_rate_limited_def Let_def ALERT_COOLDOWN_MINUTES_def filter_empty_conv
        split: option.splits)

lemma record_alert_history:
  "alert_history (record_alert fmt svc now elder_id alert_type) (history_key fmt elder_id alert_type) =
     Some (filter (\<lambda>ts. now - timedelta_hours 1 < ts)
             (case alert_history svc (history_key fmt elder_id alert_type) of None \<Rightarrow> [] | Some l \<Rightarrow> l)
           @ [now])"
  by (simp add: record_alert_def Let_def timedelta_hours_def)

lemma record_alert_other_keys:
  "k \<noteq> history_key fmt elder_id alert_type \<Longrightarrow>
   alert_history (record_alert fmt svc now elder_id alert_type) k = alert_history svc k"
  by (simp add: record_alert_def Let_def)

lemma send_suppressed:
  assumes "is_rate_limited fmt svc t_check elder_id (dict_get ed ''emergency_type'' PNone)"
  shows "send_emergency_alert fmt ch t_check t_record svc elder_id elder_name ed fam =
           (\<lparr> sent = False, reason = Some ''rate_limited'',
               info = Some ''Similar alert sent recently'', results = None \<rparr>, svc)"
  using assms by (simp add: send_emergency_alert_def)

lemma send_not_suppressed:
  assumes "\<not> is_rate_limited fmt svc t_check elder_id (dict_get ed ''emergency_type'' PNone)"
  shows "sent (fst (send_emergency_alert fmt ch t_check t_record svc elder_id elder_name ed fam))"
    and "reason (fst (send_emergency_alert fmt ch t_check t_record svc elder_id elder_name ed fam)) = None"
    and "alert_history (snd (send_emergency_alert fmt ch t_check t_record svc elder_id elder_name ed fam))
           (history_key fmt elder_id (dict_get ed ''emergency_type'' PNone)) =
         Some (filter (\<lambda>ts. t_record - timedelta_hours 1 < ts)
                 (case alert_history svc (history_key fmt elder_id (dict_get ed ''emergency_type'' PNone))
                  of None \<Rightarrow> [] | Some l \<Rightarrow> l) @ [t_record])"
  using assms
  by (simp_all add: send_emergency_alert_def Let_def record_alert_history notify_all_history)

text \<open>
  Claim C5. Take three dispatches for one elder and one alert type, with any dispatches in
  between that leave the history of this key alone. If the first is not
  suppressed it reports \<^verbatim>\<open>sent = True\<close> and records exactly one timestamp, the time \<open>r1\<close> of
  its \<^verbatim>\<open>_record_alert\<close>, behind the entries of the last hour. A second dispatch whose
  rate-limit check happens less than 30 minutes after \<open>r1\<close> reports \<^verbatim>\<open>sent = False\<close> with
  reason \<^verbatim>\<open>rate_limited\<close> and leaves the service as it was: no channel is called and nothing
  is recorded. A third dispatch checked 30 minutes or more after \<open>r1\<close> reports
  \<^verbatim>\<open>sent = True\<close> again and records its own timestamp.
\<close>

theorem cooldown_suppresses_then_releases:
  assumes first: "\<not> is_rate_limited fmt svc t1 elder_id alert_type"
    and ty: "dict_get ed1 ''emergency_type'' PNone = alert_type"
        "dict_get ed2 ''emergency_type'' PNone = alert_type"
        "dict_get ed3 ''emergency_type'' PNone = alert_type"
    and clock: "t1 \<le> r1"
    and within: "t2 - r1 < timedelta_minutes 30"
    and after: "timedelta_minutes 30 \<le> t3 - r1"
    and run1: "send_emergency_alert fmt ch t1 r1 svc elder_id name1 ed1 fam1 = (res1, svc1)"
    and between1: "alert_history svc1' (history_key fmt elder_id alert_type) =
                   alert_history svc1 (history_key fmt elder_id alert_type)"
    and run2: "send_emergency_alert fmt ch t2 r2 svc1' elder_id name2 ed2 fam2 = (res2, svc2)"
    and between2: "alert_history svc2' (history_key fmt elder_id alert_type) =
                   alert_history svc2 (history_key fmt elder_id alert_type)"
    and run3: "send_emergency_alert fmt ch t3 r3 svc2' elder_id name3 ed3 fam3 = (res3, svc3)"
  shows "sent res1 \<and>
         alert_history svc1 (history_key fmt elder_id alert_type) =
           Some (filter (\<lambda>ts. r1 - timedelta_hours 1 < ts)
                   (case alert_history svc (history_key fmt elder_id alert_type)
                    of None \<Rightarrow> [] | Some l \<Rightarrow> l) @ [r1]) \<and>
         \<not> sent res2 \<and> reason res2 = Some ''rate_limited'' \<and>
         channel_log svc2 = channel_log svc1' \<and> svc2 = svc1' \<and>
         sent res3 \<and>
         alert_history svc3 (history_key fmt elder_id alert_type) =
           Some (filter (\<lambda>ts. r3 - timedelta_hours 1 < ts)
                   (case alert_history svc2' (history_key fmt elder_id alert_type)
                    of None \<Rightarrow> [] | Some l \<Rightarrow> l) @ [r3])"
proof -
  let ?k = "history_key fmt elder_id alert_type"
  let ?old = "case alert_history svc ?k of None \<Rightarrow> [] | Some l \<Rightarrow> l"
  have nl1: "\<not> is_rate_limited fmt svc t1 elder_id (dict_get ed1 ''emergency_type'' PNone)"
    using first ty(1) by simp
  have s1: "sent res1"
    using send_not_suppressed(1)[OF nl1, of ch r1 name1 fam1] run1 by simp
  have h1: "alert_history svc1 ?k = Some (filter (\<lambda>ts. r1 - timedelta_hours 1 < ts) ?old @ [r1])"
    using send_not_suppressed(3)[OF nl1, of ch r1 name1 fam1] run1 ty(1) by simp
  have "is_rate_limited fmt svc1' t2 elder_id alert_type"
    unfolding is_rate_limited_iff between1 h1 using within by simp
  then have l2: "is_rate_limited fmt svc1' t2 elder_id (dict_get ed2 ''emergency_type'' PNone)"
    using ty(2) by simp
  have r2: "res2 = \<lparr> sent = False, reason = Some ''rate_limited'',
               info = Some ''Similar alert sent recently'', results = None \<rparr>" "svc2 = svc1'"
    using send_suppressed[OF l2, of ch r2 name2 fam2] run2 by simp_all
  have old: "\<forall>ts \<in> set ?old. \<not> t1 - ts < timedelta_minutes 30"
    using first unfolding is_rate_limited_iff by blast
  have pos: "0 \<le> timedelta_minutes 30" by (simp add: timedelta_minutes_def)
  have "\<not> t3 - ts < timedelta_minutes 30"
    if "ts \<in> set (filter (\<lambda>ts. r1 - timedelta_hours 1 < ts) ?old @ [r1])" for ts
  proof (cases "ts = r1")
    case True
    then show ?thesis using after by simp
  next
    case False
    with that have "ts \<in> set ?old" by simp
    with old have "\<not> t1 - ts < timedelta_minutes 30" by blast
    then show ?thesis using clock after pos by linarith
  qed
  then have "\<not> is_rate_limited fmt svc2' t3 elder_id alert_type"
    unfolding is_rate_limited_iff between2 r2(2) between1 h1 by (simp del: set_filter set_append)
  then have nl3: "\<not> is_rate_limited fmt svc2' t3 elder_id (dict_get ed3 ''emergency_type'' PNone)"
    using ty(3) by simp
  have s3: "sent res3"
    using send_not_suppressed(1)[OF nl3, of ch r3 name3 fam3] run3 by simp
  have h3: "alert_history svc3 ?k = Some (filter (\<lambda>ts. r3 - timedelta_hours 1 < ts)
              (case alert_history svc2' ?k of None \<Rightarrow> [] | Some l \<Rightarrow> l) @ [r3])"
    using send_not_suppressed(3)[OF nl3, of ch r3 name3 fam3] run3 ty(3) by simp
  show ?thesis using s1 h1 r2 s3 h3 by simp
qed

theorem cooldown_suppresses_then_releases_witness:
  "sent (fst (send_emergency_alert (\<lambda>v. case v of PStr s \<Rightarrow> s | _ \<Rightarrow> ''None'')
      \<lparr> fcm_send = (\<lambda>t ti b. True), sms_send = (\<lambda>ph ti m a. True) \<rparr>
      0 0 \<lparr> firebase_initialized = False, twilio_initialized = False, alert_history = Map.empty, channel_log = [] \<rparr>
      ''elder-1'' ''Ann'' [''emergency_type'' \<mapsto> PStr ''fall_detected'', ''severity'' \<mapsto> PStr ''critical'']
      [[''fcm_token'' \<mapsto> PStr ''token-1'', ''phone'' \<mapsto> PStr ''555'']])) \<and>
   \<not> sent (fst (send_emergency_alert (\<lambda>v. case v of PStr s \<Rightarrow> s | _ \<Rightarrow> ''None'')
      \<lparr> fcm_send = (\<lambda>t ti b. True), sms_send = (\<lambda>ph ti m a. True) \<rparr>
      1000000 1000000 (snd (send_emergency_alert (\<lambda>v. case v of PStr s \<Rightarrow> s | _ \<Rightarrow> ''None'')
      \<lparr> fcm_send = (\<lambda>t ti b. True), sms_send = (\<lambda>ph ti m a. True) \<rparr>
      0 0 \<lparr> firebase_initialized = False, twilio_initialized = False, alert_history = Map.empty, channel_log = [] \<rparr>
      ''elder-1'' ''Ann'' [''emergency_type'' \<mapsto> PStr ''fall_detected'', ''severity'' \<mapsto> PStr ''critical'']
      [[''fcm_token'' \<mapsto> PStr ''token-1'', ''phone'' \<mapsto> PStr ''555'']]))
      ''elder-1'' ''Ann'' [''emergency_type'' \<mapsto> PStr ''fall_detected'', ''severity'' \<mapsto> PStr ''critical'']
      [[''fcm_token'' \<mapsto> PStr ''token-1'', ''phone'' \<mapsto> PStr ''555'']])) \<and>
   reason (fst (send_emergency_alert (\<lambda>v. case v of PStr s \<Rightarrow> s | _ \<Rightarrow> ''None'')
      \<lparr> fcm_send = (\<lambda>t ti b. True), sms_send = (\<lambda>ph ti m a. True) \<rparr>
      1000000 1000000 (snd (send_emergency_alert (\<lambda>v. case v of PStr s \<Rightarrow> s | _ \<Rightarrow> ''None'')
      \<lparr> fcm_send = (\<lambda>t ti b. True), sms_send = (\<lambda>ph ti m a. True) \<rparr>
      0 0 \<lparr> firebase_initialized = False, twilio_initialized = False, alert_history = Map.empty, channel_log = [] \<rparr>
      ''elder-1'' ''Ann'' [''emergency_type'' \<mapsto> PStr ''fall_detected'', ''severity'' \<mapsto> PStr ''critical'']
      [[''fcm_token'' \<mapsto> PStr ''token-1'', ''phone'' \<mapsto> PStr ''555'']]))
      ''elder-1'' ''Ann'' [''emergency_type'' \<mapsto> PStr ''fall_detected'', ''severity'' \<mapsto> PStr ''critical'']
      [[''fcm_token'' \<mapsto> PStr ''token-1'', ''phone'' \<mapsto> PStr ''555'']])) = Some ''rate_limited'' \<and>
   channel_log (snd (send_emergency_alert (\<lambda>v. case v of PStr s \<Rightarrow> s | _ \<Rightarrow> ''None'')
      \<lparr> fcm_send = (\<lambda>t ti b. True), sms_send = (\<lambda>ph ti m a. True) \<rparr>
      1000000 1000000 (snd (send_emergency_alert (\<lambda>v. case v of PStr s \<Rightarrow> s | _ \<Rightarrow> ''None'')
      \<lparr> fcm_send = (\<lambda>t ti b. True), sms_send = (\<lambda>ph ti m a. True) \<rparr>
      0 0 \<lparr> firebase_initialized = False, twilio_initialized = False, alert_history = Map.empty, channel_log = [] \<rparr>
      ''elder-1'' ''Ann'' [''emergency_type'' \<mapsto> PStr ''fall_detected'', ''severity'' \<mapsto> PStr ''critical'']
      [[''fcm_token'' \<mapsto> PStr ''token-1'', ''phone'' \<mapsto> PStr ''555'']]))
      ''elder-1'' ''Ann'' [''emergency_type'' \<mapsto> PStr ''fall_detected'', ''severity'' \<mapsto> PStr ''critical'']
      [[''fcm_token'' \<mapsto> PStr ''token-1'', ''phone'' \<mapsto> PStr ''555'']])) = channel_log (snd (send_emergency_alert (\<lambda>v. case v of PStr s \<Rightarrow> s | _ \<Rightarrow> ''None'')
      \<lparr> fcm_send = (\<lambda>t ti b. True), sms_send = (\<lambda>ph ti m a. True) \<rparr>
      0 0 \<lparr> firebase_initialized = False, twilio_initialized = False, alert_history = Map.empty, channel_log = [] \<rparr>
      ''elder-1'' ''Ann'' [''emergency_type'' \<mapsto> PStr ''fall_detected'', ''severity'' \<mapsto> PStr ''critical'']
      [[''fcm_token'' \<mapsto> PStr ''token-1'', ''phone'' \<mapsto> PStr ''555'']])) \<and>
   sent (fst (send_emergency_alert (\<lambda>v. case v of PStr s \<Rightarrow> s | _ \<Rightarrow> ''None'')
      \<lparr> fcm_send = (\<lambda>t ti b. True), sms_send = (\<lambda>ph ti m a. True) \<rparr>
      1860000000 1860000000 (snd (send_emergency_alert (\<lambda>v. case v of PStr s \<Rightarrow> s | _ \<Rightarrow> ''None'')
      \<lparr> fcm_send = (\<lambda>t ti b. True), sms_send = (\<lambda>ph ti m a. True) \<rparr>
      1000000 1000000 (snd (send_emergency_alert (\<lambda>v. case v of PStr s \<Rightarrow> s | _ \<Rightarrow> ''None'')
      \<lparr> fcm_send = (\<lambda>t ti b. True), sms_send = (\<lambda>ph ti m a. True) \<rparr>
      0 0 \<lparr> firebase_initialized = False, twilio_initialized = False, alert_history = Map.empty, channel_log = [] \<rparr>
      ''elder-1'' ''Ann'' [''emergency_type'' \<mapsto> PStr ''fall_detected'', ''severity'' \<mapsto> PStr ''critical'']
      [[''fcm_token'' \<mapsto> PStr ''token-1'', ''phone'' \<mapsto> PStr ''555'']]))
      ''elder-1'' ''Ann'' [''emergency_type'' \<mapsto> PStr ''fall_detected'', ''severity'' \<mapsto> PStr ''critical'']
      [[''fcm_token'' \<mapsto> PStr ''token-1'', ''phone'' \<mapsto> PStr ''555'']]))
      ''elder-1'' ''Ann'' [''emergency_type'' \<mapsto> PStr ''fall_detected'', ''severity'' \<mapsto> PStr ''critical'']
      [[''fcm_token'' \<mapsto> PStr ''token-1'', ''phone'' \<mapsto> PStr ''555'']]))"
proof -
  let ?fmt = "(\<lambda>v. case v of PStr s \<Rightarrow> s | _ \<Rightarrow> ''None'')"
  let ?s0 = "\<lparr> firebase_initialized = False, twilio_initialized = False, alert_history = Map.empty, channel_log = [] \<rparr>"
  have a: "\<not> is_rate_limited ?fmt ?s0 0 ''elder-1'' (PStr ''fall_detected'')"
    by (simp add: is_rate_limited_def)
  have b: "dict_get [''emergency_type'' \<mapsto> PStr ''fall_detected'', ''severity'' \<mapsto> PStr ''critical''] ''emergency_type'' PNone = PStr ''fall_detected''"
    by (simp add: dict_get_def)
  have c: "(0::int) \<le> 0" by simp
  have d: "(1000000::int) - 0 < timedelta_minutes 30" by (simp add: timedelta_minutes_def)
  have e: "timedelta_minutes 30 \<le> (1860000000::int) - 0" by (simp add: timedelta_minutes_def)
  from cooldown_suppresses_then_releases[OF a b b b c d e prod.collapse[symmetric] refl
         prod.collapse[symmetric] refl prod.collapse[symmetric]]
  show ?thesis by blast
qed

text \<open>
  Claim C6, as amended. A suppressed dispatch changes nothing: the history is read, not
  pruned. A dispatch that is not suppressed appends its timestamp to the entries of its key
  and then drops the entries that are an hour old or older, so that after this write every
  entry of the key is less than one hour old; the pruning happens after the rate-limit
  decision, in \<^verbatim>\<open>_record_alert\<close>.
\<close>

theorem history_pruned_on_write:
  "(is_rate_limited fmt svc t_check elder_id (dict_get ed ''emergency_type'' PNone) \<longrightarrow>
      send_emergency_alert fmt ch t_check t_record svc elder_id elder_name ed fam =
        (\<lparr> sent = False, reason = Some ''rate_limited'',
            info = Some ''Similar alert sent recently'', results = None \<rparr>, svc)) \<and>
   (\<not> is_rate_limited fmt svc t_check elder_id (dict_get ed ''emergency_type'' PNone) \<longrightarrow>
      (\<exists>stamps.
         alert_history (snd (send_emergency_alert fmt ch t_check t_record svc elder_id elder_name ed fam))
           (history_key fmt elder_id (dict_get ed ''emergency_type'' PNone)) = Some stamps \<and>
         stamps = filter (\<lambda>ts. t_record - timedelta_hours 1 < ts)
                    (case alert_history svc (history_key fmt elder_id (dict_get ed ''emergency_type'' PNone))
                     of None \<Rightarrow> [] | Some l \<Rightarrow> l) @ [t_record] \<and>
         list_all (\<lambda>ts. t_record - ts < timedelta_hours 1) stamps))"
proof (intro conjI impI)
  assume "is_rate_limited fmt svc t_check elder_id (dict_get ed ''emergency_type'' PNone)"
  then show "send_emergency_alert fmt ch t_check t_record svc elder_id elder_name ed fam =
        (\<lparr> sent = False, reason = Some ''rate_limited'',
            info = Some ''Similar alert sent recently'', results = None \<rparr>, svc)"
    by (rule send_suppressed)
next
  assume nl: "\<not> is_rate_limited fmt svc t_check elder_id (dict_get ed ''emergency_type'' PNone)"
  have "list_all (\<lambda>ts. t_record - ts < timedelta_hours 1)
          (filter (\<lambda>ts. t_record - timedelta_hours 1 < ts)
                    (case alert_history svc (history_key fmt elder_id (dict_get ed ''emergency_type'' PNone))
                     of None \<Rightarrow> [] | Some l \<Rightarrow> l) @ [t_record])"
    by (auto simp: list_all_iff timedelta_hours_def)
  then show "\<exists>stamps.
         alert_history (snd (send_emergency_alert fmt ch t_check t_record svc elder_id elder_name ed fam))
           (history_key fmt elder_id (dict_get ed ''emergency_type'' PNone)) = Some stamps \<and>
         stamps = filter (\<lambda>ts. t_record - timedelta_hours 1 < ts)
                    (case alert_history svc (history_key fmt elder_id (dict_get ed ''emergency_type'' PNone))
                     of None \<Rightarrow> [] | Some l \<Rightarrow> l) @ [t_record] \<and>
         list_all (\<lambda>ts. t_record - ts < timedelta_hours 1) stamps"
    using send_not_suppressed(3)[OF nl] by simp
qed

theorem history_pruned_on_write_witness:
  "alert_history (snd (send_emergency_alert (\<lambda>v. case v of PStr s \<Rightarrow> s | _ \<Rightarrow> ''None'')
      \<lparr> fcm_send = (\<lambda>t ti b. True), sms_send = (\<lambda>ph ti m a. True) \<rparr>
      0 0 \<lparr> firebase_initialized = False, twilio_initialized = False, alert_history = Map.empty, channel_log = [] \<rparr>
      ''elder-1'' ''Ann'' [''emergency_type'' \<mapsto> PStr ''fall_detected'', ''severity'' \<mapsto> PStr ''critical'']
      [[''fcm_token'' \<mapsto> PStr ''token-1'', ''phone'' \<mapsto> PStr ''555'']])) ''elder-1:fall_detected'' = Some [0] \<and>
   snd (send_emergency_alert (\<lambda>v. case v of PStr s \<Rightarrow> s | _ \<Rightarrow> ''None'')
      \<lparr> fcm_send = (\<lambda>t ti b. True), sms_send = (\<lambda>ph ti m a. True) \<rparr>
      1000000 1000000 \<lparr> firebase_initialized = False, twilio_initialized = False, alert_history = [''elder-1:fall_detected'' \<mapsto> [0]], channel_log = [] \<rparr>
      ''elder-1'' ''Ann'' [''emergency_type'' \<mapsto> PStr ''fall_detected'', ''severity'' \<mapsto> PStr ''critical'']
      [[''fcm_token'' \<mapsto> PStr ''token-1'', ''phone'' \<mapsto> PStr ''555'']]) =
     \<lparr> firebase_initialized = False, twilio_initialized = False, alert_history = [''elder-1:fall_detected'' \<mapsto> [0]], channel_log = [] \<rparr>"
proof -
  let ?fmt = "(\<lambda>v. case v of PStr s \<Rightarrow> s | _ \<Rightarrow> ''None'')"
  let ?ed = "[''emergency_type'' \<mapsto> PStr ''fall_detected'', ''severity'' \<mapsto> PStr ''critical'']"
  have k: "history_key ?fmt ''elder-1'' (dict_get ?ed ''emergency_type'' PNone) = ''elder-1:fall_detected''"
    by (simp add: history_key_def dict_get_def)
  have a: "\<not> is_rate_limited ?fmt \<lparr> firebase_initialized = False, twilio_initialized = False, alert_history = Map.empty, channel_log = [] \<rparr> 0 ''elder-1'' (dict_get ?ed ''emergency_type'' PNone)"
    by (simp add: is_rate_limited_def)
  have b: "is_rate_limited ?fmt \<lparr> firebase_initialized = False, twilio_initialized = False, alert_history = [''elder-1:fall_detected'' \<mapsto> [0]], channel_log = [] \<rparr> 1000000 ''elder-1'' (dict_get ?ed ''emergency_type'' PNone)"
    by (simp add: is_rate_limited_def k timedelta_minutes_def ALERT_COOLDOWN_MINUTES_def)
  have "alert_history (snd (send_emergency_alert (\<lambda>v. case v of PStr s \<Rightarrow> s | _ \<Rightarrow> ''None'')
      \<lparr> fcm_send = (\<lambda>t ti b. True), sms_send = (\<lambda>ph ti m a. True) \<rparr>
      0 0 \<lparr> firebase_initialized = False, twilio_initialized = False, alert_history = Map.empty, channel_log = [] \<rparr>
      ''elder-1'' ''Ann'' [''emergency_type'' \<mapsto> PStr ''fall_detected'', ''severity'' \<mapsto> PStr ''critical'']
      [[''fcm_token'' \<mapsto> PStr ''token-1'', ''phone'' \<mapsto> PStr ''555'']])) ''elder-1:fall_detected'' = Some [0]"
    using history_pruned_on_write[of ?fmt "\<lparr> firebase_initialized = False, twilio_initialized = False, alert_history = Map.empty, channel_log = [] \<rparr>" 0 "''elder-1''" ?ed _ 0] a
    unfolding k by simp
  moreover have "snd (send_emergency_alert (\<lambda>v. case v of PStr s \<Rightarrow> s | _ \<Rightarrow> ''None'')
      \<lparr> fcm_send = (\<lambda>t ti b. True), sms_send = (\<lambda>ph ti m a. True) \<rparr>
      1000000 1000000 \<lparr> firebase_initialized = False, twilio_initialized = False, alert_history = [''elder-1:fall_detected'' \<mapsto> [0]], channel_log = [] \<rparr>
      ''elder-1'' ''Ann'' [''emergency_type'' \<mapsto> PStr ''fall_detected'', ''severity'' \<mapsto> PStr ''critical'']
      [[''fcm_token'' \<mapsto> PStr ''token-1'', ''phone'' \<mapsto> PStr ''555'']]) =
     \<lparr> firebase_initialized = False, twilio_initialized = False, alert_history = [''elder-1:fall_detected'' \<mapsto> [0]], channel_log = [] \<rparr>"
    using history_pruned_on_write[of ?fmt "\<lparr> firebase_initialized = False, twilio_initialized = False, alert_history = [''elder-1:fall_detected'' \<mapsto> [0]], channel_log = [] \<rparr>" 1000000 "''elder-1''" ?ed _ 1000000] b
    by simp
  ultimately show ?thesis by blast
qed

text \<open>
  Claim C6 as stated fails: after alerts recorded at minute 0 and minute 50, an attempt at
  minute 75 is suppressed and the history of the key still holds the entry of minute 0,
  which is more than one hour old.
\<close>

theorem suppressed_attempt_keeps_old_entries_counterexample:
  "sent (fst (send_emergency_alert (\<lambda>v. case v of PStr s \<Rightarrow> s | _ \<Rightarrow> ''None'')
      \<lparr> fcm_send = (\<lambda>t ti b. True), sms_send = (\<lambda>ph ti m a. True) \<rparr>
      0 0 \<lparr> firebase_initialized = False, twilio_initialized = False, alert_history = Map.empty, channel_log = [] \<rparr>
      ''elder-1'' ''Ann'' [''emergency_type'' \<mapsto> PStr ''fall_detected'', ''severity'' \<mapsto> PStr ''critical'']
      [[''fcm_token'' \<mapsto> PStr ''token-1'', ''phone'' \<mapsto> PStr ''555'']])) \<and>
   sent (fst (send_emergency_alert (\<lambda>v. case v of PStr s \<Rightarrow> s | _ \<Rightarrow> ''None'')
      \<lparr> fcm_send = (\<lambda>t ti b. True), sms_send = (\<lambda>ph ti m a. True) \<rparr>
      3000000000 3000000000 (snd (send_emergency_alert (\<lambda>v. case v of PStr s \<Rightarrow> s | _ \<Rightarrow> ''None'')
      \<lparr> fcm_send = (\<lambda>t ti b. True), sms_send = (\<lambda>ph ti m a. True) \<rparr>
      0 0 \<lparr> firebase_initialized = False, twilio_initialized = False, alert_history = Map.empty, channel_log = [] \<rparr>
      ''elder-1'' ''Ann'' [''emergency_type'' \<mapsto> PStr ''fall_detected'', ''severity'' \<mapsto> PStr ''critical'']
      [[''fcm_token'' \<mapsto> PStr ''token-1'', ''phone'' \<mapsto> PStr ''555'']]))
      ''elder-1'' ''Ann'' [''emergency_type'' \<mapsto> PStr ''fall_detected'', ''severity'' \<mapsto> PStr ''critical'']
      [[''fcm_token'' \<mapsto> PStr ''token-1'', ''phone'' \<mapsto> PStr ''555'']])) \<and>
   \<not> sent (fst (send_emergency_alert (\<lambda>v. case v of PStr s \<Rightarrow> s | _ \<Rightarrow> ''None'')
      \<lparr> fcm_send = (\<lambda>t ti b. True), sms_send = (\<lambda>ph ti m a. True) \<rparr>
      4500000000 4500000000 (snd (send_emergency_alert (\<lambda>v. case v of PStr s \<Rightarrow> s | _ \<Rightarrow> ''None'')
      \<lparr> fcm_send = (\<lambda>t ti b. True), sms_send = (\<lambda>ph ti m a. True) \<rparr>
      3000000000 3000000000 (snd (send_emergency_alert (\<lambda>v. case v of PStr s \<Rightarrow> s | _ \<Rightarrow> ''None'')
      \<lparr> fcm_send = (\<lambda>t ti b. True), sms_send = (\<lambda>ph ti m a. True) \<rparr>
      0 0 \<lparr> firebase_initialized = False, twilio_initialized = False, alert_history = Map.empty, channel_log = [] \<rparr>
      ''elder-1'' ''Ann'' [''emergency_type'' \<mapsto> PStr ''fall_detected'', ''severity'' \<mapsto> PStr ''critical'']
      [[''fcm_token'' \<mapsto> PStr ''token-1'', ''phone'' \<mapsto> PStr ''555'']]))
      ''elder-1'' ''Ann'' [''emergency_type'' \<mapsto> PStr ''fall_detected'', ''severity'' \<mapsto> PStr ''critical'']
      [[''fcm_token'' \<mapsto> PStr ''token-1'', ''phone'' \<mapsto> PStr ''555'']]))
      ''elder-1'' ''Ann'' [''emergency_type'' \<mapsto> PStr ''fall_detected'', ''severity'' \<mapsto> PStr ''critical'']
      [[''fcm_token'' \<mapsto> PStr ''token-1'', ''phone'' \<mapsto> PStr ''555'']])) \<and>
   reason (fst (send_emergency_alert (\<lambda>v. case v of PStr s \<Rightarrow> s | _ \<Rightarrow> ''None'')
      \<lparr> fcm_send = (\<lambda>t ti b. True), sms_send = (\<lambda>ph ti m a. True) \<rparr>
      4500000000 4500000000 (snd (send_emergency_alert (\<lambda>v. case v of PStr s \<Rightarrow> s | _ \<Rightarrow> ''None'')
      \<lparr> fcm_send = (\<lambda>t ti b. True), sms_send = (\<lambda>ph ti m a. True) \<rparr>
      3000000000 3000000000 (snd (send_emergency_alert (\<lambda>v. case v of PStr s \<Rightarrow> s | _ \<Rightarrow> ''None'')
      \<lparr> fcm_send = (\<lambda>t ti b. True), sms_send = (\<lambda>ph ti m a. True) \<rparr>
      0 0 \<lparr> firebase_initialized = False, twilio_initialized = False, alert_history = Map.empty, channel_log = [] \<rparr>
      ''elder-1'' ''Ann'' [''emergency_type'' \<mapsto> PStr ''fall_detected'', ''severity'' \<mapsto> PStr ''critical'']
      [[''fcm_token'' \<mapsto> PStr ''token-1'', ''phone'' \<mapsto> PStr ''555'']]))
      ''elder-1'' ''Ann'' [''emergency_type'' \<mapsto> PStr ''fall_detected'', ''severity'' \<mapsto> PStr ''critical'']
      [[''fcm_token'' \<mapsto> PStr ''token-1'', ''phone'' \<mapsto> PStr ''555'']]))
      ''elder-1'' ''Ann'' [''emergency_type'' \<mapsto> PStr ''fall_detected'', ''severity'' \<mapsto> PStr ''critical'']
      [[''fcm_token'' \<mapsto> PStr ''token-1'', ''phone'' \<mapsto> PStr ''555'']])) = Some ''rate_limited'' \<and>
   alert_history (snd (send_emergency_alert (\<lambda>v. case v of PStr s \<Rightarrow> s | _ \<Rightarrow> ''None'')
      \<lparr> fcm_send = (\<lambda>t ti b. True), sms_send = (\<lambda>ph ti m a. True) \<rparr>
      4500000000 4500000000 (snd (send_emergency_alert (\<lambda>v. case v of PStr s \<Rightarrow> s | _ \<Rightarrow> ''None'')
      \<lparr> fcm_send = (\<lambda>t ti b. True), sms_send = (\<lambda>ph ti m a. True) \<rparr>
      3000000000 3000000000 (snd (send_emergency_alert (\<lambda>v. case v of PStr s \<Rightarrow> s | _ \<Rightarrow> ''None'')
      \<lparr> fcm_send = (\<lambda>t ti b. True), sms_send = (\<lambda>ph ti m a. True) \<rparr>
      0 0 \<lparr> firebase_initialized = False, twilio_initialized = False, alert_history = Map.empty, channel_log = [] \<rparr>
      ''elder-1'' ''Ann'' [''emergency_type'' \<mapsto> PStr ''fall_detected'', ''severity'' \<mapsto> PStr ''critical'']
      [[''fcm_token'' \<mapsto> PStr ''token-1'', ''phone'' \<mapsto> PStr ''555'']]))
      ''elder-1'' ''Ann'' [''emergency_type'' \<mapsto> PStr ''fall_detected'', ''severity'' \<mapsto> PStr ''critical'']
      [[''fcm_token'' \<mapsto> PStr ''token-1'', ''phone'' \<mapsto> PStr ''555'']]))
      ''elder-1'' ''Ann'' [''emergency_type'' \<mapsto> PStr ''fall_detected'', ''severity'' \<mapsto> PStr ''critical'']
      [[''fcm_token'' \<mapsto> PStr ''token-1'', ''phone'' \<mapsto> PStr ''555'']])) ''elder-1:fall_detected'' = Some [0, 3000000000] \<and>
   timedelta_hours 1 < 4500000000 - 0"
  by (simp add: send_emergency_alert_def is_rate_limited_def record_alert_def history_key_def
        dict_get_def notify_member_def send_fcm_notification_def send_sms_alert_def
        format_title_def py_eq_str_def timedelta_minutes_def timedelta_hours_def
        ALERT_COOLDOWN_MINUTES_def Let_def)

section \<open>The result of the engine\<close>

text \<open>When at least one check triggers, the engine reports as primary the first candidate, in
  check order, of maximal severity rank, keeps all candidates and counts them. When none
  triggers it returns the no-emergency dictionary, which has no \<^verbatim>\<open>total_emergencies\<close> key.\<close>

lemma severity_key_neg:
  "(- severity_order (severity c) = - severity_order (severity best)) =
   (severity_order (severity c) = severity_order (severity best))"
  by simp

lemma detect_emergency_reports_highest:
  assumes "check_pain_emergency (or_empty v) (or_empty h) = Inr c3"
    and "check_eating_emergency (or_empty a) = Inr c4"
    and "check_inactivity_emergency (or_empty a) = Inr c5"
    and "check_emergency_button (or_empty h) = Inr c6"
    and "check_combined_risks (or_empty v) (or_empty a) (or_empty h) = Inr c7"
    and "es = triggered [check_fall_emergency p now (or_empty v) (case e of None \<Rightarrow> [] | Some l \<Rightarrow> l),
                         check_distress_emergency (or_empty v), c3, c4, c5, c6, c7]"
    and "es \<noteq> []"
  shows "\<exists>r best. detect_emergency p now stamp v a h e = Inr r \<and> emergency r \<and>
           best \<in> set es \<and>
           (\<forall>c \<in> set es. severity_order (severity c) \<le> severity_order (severity best)) \<and>
           best = hd (filter (\<lambda>c. severity_order (severity c) = severity_order (severity best)) es) \<and>
           emergency_type r = Some (type best) \<and> result_severity r = severity best \<and>
           alert_message r = Some (message best) \<and> recommended_action r = Some (action best) \<and>
           mset (all_concerns r) = mset es \<and> total_emergencies r = Some (length es)"
proof -
  let ?f = "\<lambda>x. - severity_order (severity x)"
  from hd_sort_key[OF assms(7), of ?f] obtain k where k:
    "\<forall>x \<in> set es. k \<le> ?f x" "filter (\<lambda>x. ?f x = k) es \<noteq> []"
    "hd (sort_key ?f es) = hd (filter (\<lambda>x. ?f x = k) es)" by blast
  define best where "best = hd (sort_by_severity es)"
  have best_hd: "best = hd (filter (\<lambda>x. ?f x = k) es)"
    by (simp add: best_def sort_by_severity_def k(3))
  with k(2) have "best \<in> set (filter (\<lambda>x. ?f x = k) es)" by (metis hd_in_set)
  then have best_in: "best \<in> set es" and best_k: "?f best = k" by simp_all
  have max: "\<forall>c \<in> set es. severity_order (severity c) \<le> severity_order (severity best)"
    using k(1) best_k by auto
  have first: "best = hd (filter (\<lambda>c. severity_order (severity c) = severity_order (severity best)) es)"
    using best_hd best_k by (simp add: severity_key_neg[symmetric] del: neg_equal_iff_equal)
  have ms: "mset (sort_by_severity es) = mset es" by (simp add: sort_by_severity_def)
  have len: "length (sort_by_severity es) = length es" by (simp add: sort_by_severity_def)
  define r where "r = \<lparr> emergency = True, emergency_type = Some (type best),
                 result_severity = severity best,
                 alert_message = Some (message best),
                 recommended_action = Some (action best),
                 all_concerns = sort_by_severity es,
                 total_emergencies = Some (length (sort_by_severity es)), timestamp = stamp \<rparr>"
  have res: "detect_emergency p now stamp v a h e = Inr r"
    unfolding detect_emergency_collect[OF assms(1-5)] assms(6)[symmetric] Let_def r_def best_def
    using assms(7) by simp
  have fields: "emergency r" "emergency_type r = Some (type best)" "result_severity r = severity best"
    "alert_message r = Some (message best)" "recommended_action r = Some (action best)"
    "mset (all_concerns r) = mset es" "total_emergencies r = Some (length es)"
    by (simp_all add: r_def ms len)
  from res fields best_in max first show ?thesis by blast
qed

lemma detect_emergency_none_triggered:
  assumes "check_pain_emergency (or_empty v) (or_empty h) = Inr c3"
    and "check_eating_emergency (or_empty a) = Inr c4"
    and "check_inactivity_emergency (or_empty a) = Inr c5"
    and "check_emergency_button (or_empty h) = Inr c6"
    and "check_combined_risks (or_empty v) (or_empty a) (or_empty h) = Inr c7"
    and "triggered [check_fall_emergency p now (or_empty v) (case e of None \<Rightarrow> [] | Some l \<Rightarrow> l),
                    check_distress_emergency (or_empty v), c3, c4, c5, c6, c7] = []"
  shows "detect_emergency p now stamp v a h e =
           Inr \<lparr> emergency = False, emergency_type = None, result_severity = ''none'',
                 alert_message = None, recommended_action = None, all_concerns = [],
                 total_emergencies = None, timestamp = stamp \<rparr>"
  unfolding detect_emergency_collect[OF assms(1-5)] assms(6) Let_def by simp

text \<open>
  Claim C1. The part of the claim about a call without any triggered candidate does not
  hold of the code: the dictionary returned then has \<^verbatim>\<open>emergency\<close> False, \<^verbatim>\<open>severity\<close>
  \<^verbatim>\<open>'none'\<close>, \<^verbatim>\<open>emergency_type\<close> None and \<^verbatim>\<open>all_concerns\<close> \<^verbatim>\<open>[]\<close>, but no
  \<^verbatim>\<open>total_emergencies\<close> entry, which only the other return statement sets. The call with
  no data at all shows it.
\<close>

theorem no_emergency_result_lacks_total_emergencies:
  "detect_emergency p now stamp None None None None =
     Inr \<lparr> emergency = False, emergency_type = None, result_severity = ''none'',
           alert_message = None, recommended_action = None, all_concerns = [],
           total_emergencies = None, timestamp = stamp \<rparr>"
  by (simp add: detect_emergency_def or_empty_def check_fall_emergency_def
        check_distress_emergency_def check_pain_emergency_def check_eating_emergency_def
        check_inactivity_emergency_def check_emergency_button_def check_combined_risks_def
        dict_get_def py_gt_def py_ge_def py_eq_num_def py_eq_str_def andthen_def add_if_def append_some_def
        THRESHOLD_days_without_eating_def THRESHOLD_inactivity_hours_def
        THRESHOLD_combined_risk_factors_def Let_def)

end
